theory Spec2Isabelle
  imports Complex_Main
begin

section \<open>Values, errors and arrays\<close>

text \<open>
  The module \<open>kpfm_bayesian_utils.py\<close> computes with Python numbers and numpy
  \<open>float64\<close> arrays. A finite float is modelled by the real number it stands for
  (rounding, overflow and signed zeros are not modelled). The value \<open>np.inf\<close>, which
  the source returns itself, its negative and \<open>nan\<close> are separate constructors, so that
  an argument, the result of a library function or the coefficient of determination that
  \<open>processResults\<close> computes may be any of them. Inside the arithmetic on arrays, an
  operation whose float result would be infinite or \<open>nan\<close> (numpy warns and goes on)
  ends the model with \<open>NotFinite\<close>.
\<close>

datatype error =
    KeyError string
  | NameError string
  | ZeroDivisionError
  | ValueError
  | IndexError
  | TypeError
  | LinAlgError
  | NotFinite

datatype float64 = Fin real | PInf | NInf | NaN

datatype pynum = PyInt int | PyFloat real

definition bindE :: "error + 'a \<Rightarrow> ('a \<Rightarrow> error + 'b) \<Rightarrow> error + 'b" where
  "bindE m f = (case m of Inl e \<Rightarrow> Inl e | Inr v \<Rightarrow> f v)"

text \<open>A two-dimensional \<open>ndarray\<close>: its shape and its entries (row, column).\<close>

record ndarray =
  nrows :: nat
  ncols :: nat
  entry :: "nat \<Rightarrow> nat \<Rightarrow> real"

definition zeros :: "nat \<Rightarrow> nat \<Rightarrow> ndarray" where
  \<comment> \<open>\<open>np.zeros((r, c))\<close>\<close>
  "zeros r c = \<lparr>nrows = r, ncols = c, entry = (\<lambda>i j. 0)\<rparr>"

definition smul :: "ndarray \<Rightarrow> real \<Rightarrow> ndarray" where
  \<comment> \<open>\<open>A * c\<close> (and \<open>c * A\<close>) for a scalar \<open>c\<close>\<close>
  "smul A c = A\<lparr>entry := (\<lambda>i j. entry A i j * c)\<rparr>"

definition cols_step2 :: "ndarray \<Rightarrow> nat \<Rightarrow> ndarray" where
  \<comment> \<open>\<open>A[:, s::2]\<close>: the columns \<open>s, s+2, ...\<close>\<close>
  "cols_step2 A s =
     \<lparr>nrows = nrows A, ncols = (ncols A - s + 1) div 2, entry = (\<lambda>r c. entry A r (s + 2 * c))\<rparr>"

definition fliplr :: "ndarray \<Rightarrow> ndarray" where
  \<comment> \<open>\<open>np.fliplr(A)\<close>: the columns in reverse order\<close>
  "fliplr A = A\<lparr>entry := (\<lambda>r c. entry A r (ncols A - 1 - c))\<rparr>"

definition cols_from :: "ndarray \<Rightarrow> int \<Rightarrow> ndarray" where
  \<comment> \<open>\<open>A[:, s:]\<close>; a negative start counts from the end, and is clipped to the array\<close>
  "cols_from A s =
     (let start = (if s < 0 then nat (max 0 (int (ncols A) + s)) else min (nat s) (ncols A))
      in \<lparr>nrows = nrows A, ncols = ncols A - start, entry = (\<lambda>r c. entry A r (start + c))\<rparr>)"

definition assign_cols_step2 :: "ndarray \<Rightarrow> nat \<Rightarrow> ndarray \<Rightarrow> ndarray" where
  \<comment> \<open>\<open>A[:, s::2] = X\<close>\<close>
  "assign_cols_step2 A s X =
     A\<lparr>entry := (\<lambda>r c. if s \<le> c \<and> even (c - s) \<and> c < ncols A
                          then entry X r ((c - s) div 2) else entry A r c)\<rparr>"

definition assign_col_block :: "ndarray \<Rightarrow> nat \<Rightarrow> ndarray \<Rightarrow> ndarray" where
  \<comment> \<open>\<open>A[:, 2*i:2*(i+1)] = E\<close>\<close>
  "assign_col_block A i E =
     A\<lparr>entry := (\<lambda>r c. if 2 * i \<le> c \<and> c < 2 * (i + 1) \<and> c < ncols A
                          then entry E r (c - 2 * i) else entry A r c)\<rparr>"

definition assign_row_block :: "ndarray \<Rightarrow> nat \<Rightarrow> ndarray \<Rightarrow> ndarray" where
  \<comment> \<open>\<open>AA[2*j:2*(j+1), :2*j] = X\<close>\<close>
  "assign_row_block AA j X =
     AA\<lparr>entry := (\<lambda>r c. if 2 * j \<le> r \<and> r < 2 * (j + 1) \<and> r < nrows AA \<and> c < 2 * j \<and> c < ncols AA
                           then entry X (r - 2 * j) c else entry AA r c)\<rparr>"

section \<open>Array arithmetic\<close>

definition array_size :: "ndarray \<Rightarrow> nat" where
  \<comment> \<open>\<open>A.size\<close>\<close>
  "array_size A = nrows A * ncols A"

definition transposeT :: "ndarray \<Rightarrow> ndarray" where
  \<comment> \<open>\<open>A.T\<close>\<close>
  "transposeT A = \<lparr>nrows = ncols A, ncols = nrows A, entry = (\<lambda>i j. entry A j i)\<rparr>"

definition matmul :: "ndarray \<Rightarrow> ndarray \<Rightarrow> error + ndarray" where
  \<comment> \<open>\<open>np.matmul(A, B)\<close>; ValueError when the inner dimensions differ\<close>
  "matmul A B =
     (if ncols A \<noteq> nrows B then Inl ValueError
      else Inr \<lparr>nrows = nrows A, ncols = ncols B,
                entry = (\<lambda>i j. \<Sum>k<ncols A. entry A i k * entry B k j)\<rparr>)"

definition broadcast :: "(real \<Rightarrow> real \<Rightarrow> real) \<Rightarrow> ndarray \<Rightarrow> ndarray \<Rightarrow> error + ndarray" where
  \<comment> \<open>an elementwise operation \<open>A + B\<close>, \<open>A - B\<close> with numpy's broadcasting: each
      dimension agrees or is 1 on one side, else ValueError\<close>
  "broadcast f A B =
     (if (nrows A = nrows B \<or> nrows A = 1 \<or> nrows B = 1)
         \<and> (ncols A = ncols B \<or> ncols A = 1 \<or> ncols B = 1)
      then Inr \<lparr>nrows = (if nrows A = 1 then nrows B else nrows A),
                ncols = (if ncols A = 1 then ncols B else ncols A),
                entry = (\<lambda>i j. f (entry A (if nrows A = 1 then 0 else i) (if ncols A = 1 then 0 else j))
                                 (entry B (if nrows B = 1 then 0 else i) (if ncols B = 1 then 0 else j)))\<rparr>
      else Inl ValueError)"

definition add_scalar :: "ndarray \<Rightarrow> real \<Rightarrow> ndarray" where
  \<comment> \<open>\<open>A + c\<close> (and \<open>c + A\<close>) for a scalar \<open>c\<close>\<close>
  "add_scalar A c = A\<lparr>entry := (\<lambda>i j. entry A i j + c)\<rparr>"

definition eye :: "nat \<Rightarrow> ndarray" where
  \<comment> \<open>\<open>np.eye(N)\<close>\<close>
  "eye N = \<lparr>nrows = N, ncols = N, entry = (\<lambda>i j. if i = j then 1 else 0)\<rparr>"

definition diag :: "real list \<Rightarrow> ndarray" where
  \<comment> \<open>\<open>np.diag(v)\<close> of a one-dimensional \<open>v\<close>\<close>
  "diag v = \<lparr>nrows = length v, ncols = length v,
              entry = (\<lambda>i j. if i = j \<and> i < length v then v ! i else 0)\<rparr>"

definition column :: "real list \<Rightarrow> ndarray" where
  \<comment> \<open>\<open>v[np.newaxis].T\<close>: the column vector of a one-dimensional \<open>v\<close>\<close>
  "column v = \<lparr>nrows = length v, ncols = 1, entry = (\<lambda>i j. if i < length v then v ! i else 0)\<rparr>"

definition reshape_col_F :: "ndarray \<Rightarrow> ndarray" where
  \<comment> \<open>\<open>a.reshape((a.size, 1), order='F')\<close>: the entries column after column\<close>
  "reshape_col_F A =
     \<lparr>nrows = nrows A * ncols A, ncols = 1,
      entry = (\<lambda>k j. entry A (k mod nrows A) (k div nrows A))\<rparr>"

definition concatenate3 :: "ndarray \<Rightarrow> ndarray \<Rightarrow> ndarray \<Rightarrow> error + ndarray" where
  \<comment> \<open>\<open>np.concatenate((X, Y, Z), axis=1)\<close>; ValueError unless the row counts agree\<close>
  "concatenate3 X Y Z =
     (if nrows X = nrows Y \<and> nrows Y = nrows Z
      then Inr \<lparr>nrows = nrows X, ncols = ncols X + ncols Y + ncols Z,
                entry = (\<lambda>i j. if j < ncols X then entry X i j
                                else if j < ncols X + ncols Y then entry Y i (j - ncols X)
                                else entry Z i (j - ncols X - ncols Y))\<rparr>
      else Inl ValueError)"

definition rows_step2 :: "ndarray \<Rightarrow> nat \<Rightarrow> ndarray" where
  \<comment> \<open>\<open>A[s::2, :]\<close>: the rows \<open>s, s+2, ...\<close>\<close>
  "rows_step2 A s =
     \<lparr>nrows = (nrows A - s + 1) div 2, ncols = ncols A, entry = (\<lambda>i j. entry A (s + 2 * i) j)\<rparr>"

definition rows_range :: "ndarray \<Rightarrow> nat \<Rightarrow> nat \<Rightarrow> ndarray" where
  \<comment> \<open>\<open>A[lo:hi]\<close> for \<open>0 \<le> lo\<close>, \<open>0 \<le> hi\<close>: the rows from \<open>lo\<close> below \<open>hi\<close>, clipped\<close>
  "rows_range A lo hi =
     \<lparr>nrows = min hi (nrows A) - lo, ncols = ncols A, entry = (\<lambda>i j. entry A (lo + i) j)\<rparr>"

definition float_of_array :: "ndarray \<Rightarrow> error + real" where
  \<comment> \<open>\<open>float(A)\<close>: only an array with one element converts\<close>
  "float_of_array A = (if array_size A = 1 then Inr (entry A 0 0) else Inl TypeError)"

section \<open>Scalars\<close>

definition py_div :: "real \<Rightarrow> real \<Rightarrow> error + real" where
  \<comment> \<open>\<open>a / b\<close> on Python numbers\<close>
  "py_div a b = (if b = 0 then Inl ZeroDivisionError else Inr (a / b))"

fun np_divide :: "float64 \<Rightarrow> float64 \<Rightarrow> error + real" where
  \<comment> \<open>\<open>a / b\<close> on numpy floats, where the result is finite: a finite number over an
      infinite one is 0; division by zero and an infinite numerator give inf or nan\<close>
  "np_divide (Fin a) (Fin b) = (if b = 0 then Inl NotFinite else Inr (a / b))"
| "np_divide (Fin a) PInf = Inr 0"
| "np_divide (Fin a) NInf = Inr 0"
| "np_divide (Fin a) NaN = Inl NotFinite"
| "np_divide PInf b = Inl NotFinite"
| "np_divide NInf b = Inl NotFinite"
| "np_divide NaN b = Inl NotFinite"

definition np_log :: "real \<Rightarrow> error + real" where
  \<comment> \<open>\<open>np.log(x)\<close>: \<open>-inf\<close> at 0 and \<open>nan\<close> below\<close>
  "np_log x = (if 0 < x then Inr (ln x) else Inl NotFinite)"

fun log_sum :: "real list \<Rightarrow> error + real" where
  \<comment> \<open>\<open>np.sum(np.log(v))\<close>\<close>
  "log_sum [] = Inr 0"
| "log_sum (x # xs) = bindE (np_log x) (\<lambda>l. bindE (log_sum xs) (\<lambda>s. Inr (l + s)))"

definition getidx :: "'a list \<Rightarrow> nat \<Rightarrow> error + 'a" where
  \<comment> \<open>\<open>v[i]\<close> for \<open>i \<ge> 0\<close>\<close>
  "getidx v i = (if i < length v then Inr (v ! i) else Inl IndexError)"

type_synonym params = "string \<Rightarrow> pynum option"

definition getitem :: "params \<Rightarrow> string \<Rightarrow> error + pynum" where
  \<comment> \<open>\<open>p[key]\<close>\<close>
  "getitem p key = (case p key of None \<Rightarrow> Inl (KeyError key) | Some v \<Rightarrow> Inr v)"

fun to_real :: "pynum \<Rightarrow> real" where
  "to_real (PyInt i) = real_of_int i"
| "to_real (PyFloat x) = x"

fun as_index :: "pynum \<Rightarrow> error + int" where
  \<comment> \<open>a number used as a dimension or in \<open>range\<close>: a float raises TypeError\<close>
  "as_index (PyInt i) = Inr i"
| "as_index (PyFloat x) = Inl TypeError"

section \<open>Library functions\<close>

text \<open>
  The functions of scipy and numpy that the module calls and that are not written out
  here are parameters of the model: the matrix exponential, the least-squares solver,
  the eigenvalues (taken to be real), the minimizer, the random generator (with its state
  \<open>'s\<close>), the polynomial fit and the matplotlib calls of the plotting blocks.
\<close>

record OptimizeResult =
  res_x :: "float64 list"
  res_fun :: float64

record 's numlib =
  expm :: "ndarray \<Rightarrow> ndarray"
  lstsq :: "ndarray \<Rightarrow> ndarray \<Rightarrow> real option \<Rightarrow> error + ndarray"
  eig :: "ndarray \<Rightarrow> real list"
  minimize :: "(float64 list \<Rightarrow> error + float64) \<Rightarrow> real list \<Rightarrow> bool \<Rightarrow> error + OptimizeResult"
  random_seed :: "nat \<Rightarrow> 's"
  randn :: "'s \<Rightarrow> real \<times> 's"
  rand :: "'s \<Rightarrow> real \<times> 's"
  polyfit :: "real list \<Rightarrow> ndarray \<Rightarrow> nat \<Rightarrow> error + ndarray"
  plotting :: "bool \<Rightarrow> error + unit"

section \<open>The state-transition assembler\<close>

definition generator :: "real \<Rightarrow> ndarray" where
  \<comment> \<open>\<open>L = np.array([[0, 1], [-1, -Qi]])\<close>\<close>
  "generator Qi =
     \<lparr>nrows = 2, ncols = 2,
      entry = (\<lambda>r c. if r = 0 \<and> c = 1 then 1 else if r = 1 \<and> c = 0 then - 1
                      else if r = 1 \<and> c = 1 then - Qi else 0)\<rparr>"

definition step_block :: "'s numlib \<Rightarrow> ndarray \<Rightarrow> real \<Rightarrow> nat \<Rightarrow> ndarray" where
  \<comment> \<open>\<open>spla.expm(L*h*m)\<close>, the block the first loop stores for \<open>i + 1 = m\<close>\<close>
  "step_block lib L h m = expm lib (smul (smul L h) (real m))"

definition transition_A :: "'s numlib \<Rightarrow> ndarray \<Rightarrow> real \<Rightarrow> nat \<Rightarrow> ndarray" where
  \<comment> \<open>\<open>A = np.zeros((2, 2*N)); for i in range(N): A[:, 2*i:2*(i+1)] = spla.expm(L*h*(i+1))\<close>\<close>
  "transition_A lib L h N =
     fold (\<lambda>i A. assign_col_block A i (step_block lib L h (i + 1))) [0..<N] (zeros 2 (2 * N))"

definition transition_A1 :: "ndarray \<Rightarrow> ndarray" where
  \<comment> \<open>\<open>a1 = np.fliplr(A[:, ::2]); a2 = np.fliplr(A[:, 1::2]); A1 = 0*A;
      A1[:, ::2] = a1; A1[:, 1::2] = a2\<close>\<close>
  "transition_A1 A =
     (let a1 = fliplr (cols_step2 A 0); a2 = fliplr (cols_step2 A 1)
      in assign_cols_step2 (assign_cols_step2 (smul A 0) 0 a1) 1 a2)"

definition transition_AA :: "ndarray \<Rightarrow> nat \<Rightarrow> ndarray" where
  \<comment> \<open>\<open>AA = np.zeros((2*N, 2*N)); for j in range(1, N): AA[2*j:2*(j+1), :2*j] = A1[:, -2*j:]\<close>\<close>
  "transition_AA A1 N =
     fold (\<lambda>j AA. assign_row_block AA j (cols_from A1 (- 2 * int j))) [1..<N] (zeros (2 * N) (2 * N))"

definition transition :: "'s numlib \<Rightarrow> ndarray \<Rightarrow> real \<Rightarrow> nat \<Rightarrow> ndarray \<times> ndarray \<times> ndarray" where
  \<comment> \<open>lines 172-191 of \<open>BayesianInference\<close>: the result is \<open>(AA, a1, a2)\<close> with the final
      \<open>a1 = A[:, ::2]\<close> and \<open>a2 = A[:, 1::2]\<close>\<close>
  "transition lib L h N =
     (let A = transition_A lib L h N
      in (transition_AA (transition_A1 A) N, cols_step2 A 0, cols_step2 A 1))"


section \<open>The basis builder \<open>_B_phin\<close>\<close>

definition assign_odd_rows :: "ndarray \<Rightarrow> nat \<Rightarrow> nat \<Rightarrow> real list \<Rightarrow> ndarray" where
  \<comment> \<open>\<open>Bn[1:stop:2, i] = v\<close>: the rows 1, 3, ... below \<open>stop\<close> (and below the number
      of rows) of column \<open>i\<close> take the entries of \<open>v\<close> in order.\<close>
  "assign_odd_rows Bn stop i v =
     Bn\<lparr>entry := (\<lambda>r c. if c = i \<and> odd r \<and> r < min stop (nrows Bn)
                           then v ! (r div 2) else entry Bn r c)\<rparr>"

definition B_phin :: "real \<Rightarrow> real \<Rightarrow> real list \<Rightarrow> int \<Rightarrow> error + ndarray" where
  \<comment> \<open>\<open>_B_phin(phi, w, tt, n)\<close>; \<open>tt\<close> is a column vector, given by its entries.
      \<open>np.zeros\<close> raises ValueError on a negative dimension. The slice selects
      \<open>N\<close> rows, as many as \<open>tt\<close> has entries.\<close>
  "B_phin phi w tt n =
     (let N = length tt in
      if n + 1 < 0 then Inl ValueError
      else Inr (fold (\<lambda>i Bn. assign_odd_rows Bn (2 * N + 1) i (map (\<lambda>t. sin (w * t + phi) ^ i) tt))
                  [0..<nat (n + 1)] (zeros (2 * N) (nat (n + 1)))))"

section \<open>Prior precision, design matrix and posterior\<close>

definition arange_pow :: "int \<Rightarrow> pynum \<Rightarrow> error + real list" where
  \<comment> \<open>\<open>np.arange(1, n+2)**aa\<close> for an integer \<open>n\<close>: an integer array raised to a
      negative integer raises ValueError\<close>
  "arange_pow n aa =
     (case aa of
        PyInt a \<Rightarrow> if a < 0 \<and> [1..n + 1] \<noteq> [] then Inl ValueError
                   else Inr (map (\<lambda>k. real_of_int k ^ nat a) [1..n + 1])
      | PyFloat a \<Rightarrow> Inr (map (\<lambda>k. real_of_int k powr a) [1..n + 1]))"

definition prior_diag :: "real \<Rightarrow> float64 \<Rightarrow> int \<Rightarrow> pynum \<Rightarrow> error + real list" where
  \<comment> \<open>the diagonal of \<open>P0\<close>:
      \<open>np.concatenate((np.array([1/sigi/sigi, 1/sigi/sigi]), 1/sig/sig*(np.arange(1, n+2)**aa)))\<close>;
      \<open>sigi\<close> is a Python number, \<open>sig\<close> a float\<close>
  "prior_diag sigi sig n aa =
     bindE (py_div 1 sigi) (\<lambda>q. bindE (py_div q sigi) (\<lambda>si2.
     bindE (np_divide (Fin 1) sig) (\<lambda>q1. bindE (np_divide (Fin q1) sig) (\<lambda>s2.
     bindE (arange_pow n aa) (\<lambda>ks. Inr ([si2, si2] @ map (\<lambda>k. s2 * k) ks))))))"

definition linalg_inv_diag :: "real list \<Rightarrow> error + real list" where
  \<comment> \<open>\<open>np.linalg.inv(np.diag(d))\<close>, given by its diagonal: \<open>inv\<close> raises LinAlgError on
      a singular matrix, and a diagonal matrix is singular when a diagonal entry is 0\<close>
  "linalg_inv_diag d = (if 0 \<in> set d then Inl LinAlgError else Inr (map inverse d))"

definition obs_precision :: "float64 \<Rightarrow> nat \<Rightarrow> error + ndarray" where
  \<comment> \<open>\<open>GAI = 1/gam/gam*np.eye(N)\<close>\<close>
  "obs_precision gam N =
     bindE (np_divide (Fin 1) gam) (\<lambda>q. bindE (np_divide (Fin q) gam) (\<lambda>g. Inr (smul (eye N) g)))"

definition B_phin64 :: "float64 \<Rightarrow> real \<Rightarrow> real list \<Rightarrow> int \<Rightarrow> error + ndarray" where
  \<comment> \<open>\<open>_B_phin\<close> at a float phase: at an infinite phase the sine is \<open>nan\<close>, and
      \<open>nan**0\<close> is 1, so only the columns \<open>i \<ge> 1\<close> of a non-empty basis are not finite\<close>
  "B_phin64 phi w tt n =
     (case phi of
        Fin ph \<Rightarrow> B_phin ph w tt n
      | _ \<Rightarrow> if n \<le> 0 \<or> tt = [] then B_phin 0 w tt n else Inl NotFinite)"

definition design_matrix ::
    "ndarray \<Rightarrow> ndarray \<Rightarrow> ndarray \<Rightarrow> ndarray \<Rightarrow> real \<Rightarrow> error + (ndarray \<times> ndarray \<times> ndarray)" where
  \<comment> \<open>\<open>BB = np.matmul(AA, B)*h;
      CC1 = np.concatenate((a1.reshape((a1.size, 1), order='F'),
                            a2.reshape((a2.size, 1), order='F'), BB), axis=1);
      CC = CC1[::2, :]\<close>, returning \<open>(BB, CC1, CC)\<close>\<close>
  "design_matrix AA a1 a2 B h =
     bindE (matmul AA B) (\<lambda>AB. let BB = smul AB h in
     bindE (concatenate3 (reshape_col_F a1) (reshape_col_F a2) BB) (\<lambda>CC1.
     Inr (BB, CC1, rows_step2 CC1 0)))"

definition lstsq_call :: "'s numlib \<Rightarrow> ndarray \<Rightarrow> ndarray \<Rightarrow> real option \<Rightarrow> error + ndarray" where
  \<comment> \<open>\<open>np.linalg.lstsq(A, B, rcond)[0]\<close>: LinAlgError when the row counts differ;
      the solution has as many rows as \<open>A\<close> has columns and the columns of \<open>B\<close>\<close>
  "lstsq_call lib A B rcond =
     (if nrows A \<noteq> nrows B then Inl LinAlgError
      else bindE (lstsq lib A B rcond) (\<lambda>X. Inr (X\<lparr>nrows := ncols A, ncols := ncols B\<rparr>)))"

definition posterior ::
    "'s numlib \<Rightarrow> ndarray \<Rightarrow> ndarray \<Rightarrow> ndarray \<Rightarrow> ndarray \<Rightarrow> ndarray \<Rightarrow> nat \<Rightarrow> real option
       \<Rightarrow> error + (ndarray \<times> ndarray)" where
  \<comment> \<open>\<open>Sig = np.linalg.lstsq(P0 + np.matmul(np.matmul(CC.T, GAI), CC), np.eye(M), rcond)[0];
      m_phi = np.matmul(Sig, np.matmul(np.matmul(CC.T, GAI), y) + np.matmul(P0, m0))\<close>\<close>
  "posterior lib P0 GAI CC y m0 M rcond =
     bindE (matmul (transposeT CC) GAI) (\<lambda>CtG. bindE (matmul CtG CC) (\<lambda>CtGC.
     bindE (broadcast (+) P0 CtGC) (\<lambda>A.
     bindE (lstsq_call lib A (eye M) rcond) (\<lambda>Sig.
     bindE (matmul (transposeT CC) GAI) (\<lambda>CtG'. bindE (matmul CtG' y) (\<lambda>b1.
     bindE (matmul P0 m0) (\<lambda>b2.
     bindE (broadcast (+) b1 b2) (\<lambda>b.
     bindE (matmul Sig b) (\<lambda>m_phi. Inr (Sig, m_phi))))))))))"

section \<open>The objective \<open>_mmlenn\<close>\<close>

record rebuilt =
  rb_phi :: float64
  rb_sig :: float64
  rb_gam :: float64
  rb_P0 :: ndarray
  rb_GAI :: ndarray
  rb_B :: ndarray
  rb_CC1 :: ndarray
  rb_CC :: ndarray
  rb_Sig :: ndarray
  rb_m_phi :: ndarray

definition mmlenn_rebuild ::
    "'s numlib \<Rightarrow> float64 list \<Rightarrow> real \<Rightarrow> real list \<Rightarrow> ndarray \<Rightarrow> ndarray \<Rightarrow> ndarray \<Rightarrow> ndarray
       \<Rightarrow> int \<Rightarrow> nat \<Rightarrow> real \<Rightarrow> ndarray \<Rightarrow> real \<Rightarrow> pynum \<Rightarrow> error + rebuilt" where
  \<comment> \<open>lines 114-131 of \<open>_mmlenn(pp, w, tt, AA, a1, a2, y, n, M, h, m0, sigi, aa)\<close>,
      all that precedes the test of the phase\<close>
  "mmlenn_rebuild lib pp w tt AA a1 a2 y n M h m0 sigi aa =
     bindE (getidx pp 2) (\<lambda>phi. bindE (getidx pp 0) (\<lambda>sig. bindE (getidx pp 1) (\<lambda>gam.
     let N = array_size y in
     bindE (prior_diag sigi sig n aa) (\<lambda>d.
     bindE (linalg_inv_diag d) (\<lambda>C0.
     bindE (obs_precision gam N) (\<lambda>GAI.
     bindE (B_phin64 phi w tt n) (\<lambda>B.
     bindE (design_matrix AA a1 a2 B h) (\<lambda>(BB, CC1, CC).
     bindE (posterior lib (diag d) GAI CC y m0 M (Some (- 1))) (\<lambda>(Sig, m_phi).
     Inr \<lparr>rb_phi = phi, rb_sig = sig, rb_gam = gam, rb_P0 = diag d, rb_GAI = GAI, rb_B = B,
          rb_CC1 = CC1, rb_CC = CC, rb_Sig = Sig, rb_m_phi = m_phi\<rparr>)))))))))"

definition mmlenn_value :: "'s numlib \<Rightarrow> ndarray \<Rightarrow> rebuilt \<Rightarrow> error + float64" where
  \<comment> \<open>lines 135-137: the value on the feasible branch; the terms are evaluated from
      left to right\<close>
  "mmlenn_value lib y rb =
     (case rb_gam rb of
        Fin g \<Rightarrow>
          bindE (log_sum (replicate (array_size y) (g ^ 2 * 1))) (\<lambda>t1.
          bindE (log_sum (eig lib (rb_Sig rb))) (\<lambda>t2.
          bindE (matmul (transposeT y) (rb_GAI rb)) (\<lambda>yG. bindE (matmul yG y) (\<lambda>t3.
          bindE (matmul (rb_Sig rb) (transposeT (rb_CC rb))) (\<lambda>SC.
          bindE (matmul (rb_GAI rb) y) (\<lambda>Gy. bindE (matmul SC Gy) (\<lambda>u.
          bindE (matmul (transposeT (rb_CC rb)) (rb_GAI rb)) (\<lambda>CtG. bindE (matmul CtG y) (\<lambda>v.
          bindE (matmul (transposeT u) v) (\<lambda>t4.
          bindE (broadcast (-) (add_scalar t3 (t1 + t2)) t4) (\<lambda>d.
          (case rb_sig rb of
             Fin s \<Rightarrow> bindE (float_of_array (add_scalar d (0 * s ^ 2 / 200))) (\<lambda>out. Inr (Fin out))
           | _ \<Rightarrow> Inl NotFinite))))))))))))
      | _ \<Rightarrow> Inl NotFinite)"

definition mmlenn ::
    "'s numlib \<Rightarrow> float64 list \<Rightarrow> real \<Rightarrow> real list \<Rightarrow> ndarray \<Rightarrow> ndarray \<Rightarrow> ndarray \<Rightarrow> ndarray
       \<Rightarrow> int \<Rightarrow> nat \<Rightarrow> real \<Rightarrow> ndarray \<Rightarrow> real \<Rightarrow> pynum \<Rightarrow> error + float64" where
  \<comment> \<open>\<open>_mmlenn\<close>: \<open>if (-np.pi <= phi) and (phi <= 0): ... else: out = np.inf\<close>; the test
      fails at an infinite phase\<close>
  "mmlenn lib pp w tt AA a1 a2 y n M h m0 sigi aa =
     bindE (mmlenn_rebuild lib pp w tt AA a1 a2 y n M h m0 sigi aa) (\<lambda>rb.
       case rb_phi rb of
         Fin ph \<Rightarrow> if - pi \<le> ph \<and> ph \<le> 0 then mmlenn_value lib y rb else Inr PInf
       | _ \<Rightarrow> Inr PInf)"

section \<open>The hyperparameter optimizer\<close>

fun less64 :: "float64 \<Rightarrow> float64 \<Rightarrow> bool" where
  \<comment> \<open>\<open>a < b\<close> on floats; a comparison with \<open>nan\<close> is False\<close>
  "less64 (Fin a) (Fin b) = (a < b)"
| "less64 (Fin a) PInf = True"
| "less64 NInf (Fin b) = True"
| "less64 NInf PInf = True"
| "less64 a b = False"

definition le64 :: "float64 \<Rightarrow> float64 \<Rightarrow> bool" where
  \<comment> \<open>\<open>a <= b\<close> on floats\<close>
  "le64 a b = (less64 a b \<or> (a = b \<and> a \<noteq> NaN))"

definition draw_pp0 :: "'s numlib \<Rightarrow> 's \<Rightarrow> real list \<times> 's" where
  \<comment> \<open>\<open>pp0[:2] = np.random.randn(1, 2)**2; pp0[2] = -np.pi*np.random.rand()\<close>\<close>
  "draw_pp0 lib s =
     (let (r1, s1) = randn lib s; (r2, s2) = randn lib s1; (u, s3) = rand lib s2
      in ([r1 ^ 2, r2 ^ 2, - pi * u], s3))"

definition keep_best :: "float64 list \<times> float64 \<Rightarrow> OptimizeResult \<Rightarrow> float64 list \<times> float64" where
  \<comment> \<open>\<open>if optResult.fun < fvalg: pp1g = optResult.x; fvalg = optResult.fun\<close>, on the
      pair \<open>(pp1g, fvalg)\<close>\<close>
  "keep_best best r = (if less64 (res_fun r) (snd best) then (res_x r, res_fun r) else best)"

fun restarts ::
    "'s numlib \<Rightarrow> (float64 list \<Rightarrow> error + float64) \<Rightarrow> nat \<Rightarrow> 's \<Rightarrow> float64 list \<times> float64
       \<Rightarrow> error + (float64 list \<times> float64)" where
  \<comment> \<open>the loop \<open>for i in range(10)\<close>, with the number of rounds left\<close>
  "restarts lib f 0 s best = Inr best"
| "restarts lib f (Suc k) s best =
     (let (pp0, s') = draw_pp0 lib s
      in bindE (minimize lib f pp0 True) (\<lambda>r. restarts lib f k s' (keep_best best r)))"

definition optimize ::
    "'s numlib \<Rightarrow> (float64 list \<Rightarrow> error + float64) \<Rightarrow> error + (float64 list \<times> float64)" where
  \<comment> \<open>lines 236-279: the seeded minimization with the default options, then the ten
      restarts with \<open>maxiter\<close> and \<open>tol\<close> set; the result is \<open>(pp1, fvalg)\<close>\<close>
  "optimize lib f =
     (let (pp0, s1) = draw_pp0 lib (random_seed lib 1)
      in bindE (minimize lib f pp0 False) (\<lambda>r. restarts lib f 10 s1 (res_x r, res_fun r)))"

section \<open>The results of the minimizations, in order\<close>

text \<open>
  To state what the optimizer keeps, the results of its eleven calls of the minimizer are
  collected in a list, and the pairs \<open>(pp1g, fvalg)\<close> that the loop goes through in
  another.
\<close>

fun restart_results ::
    "'s numlib \<Rightarrow> (float64 list \<Rightarrow> error + float64) \<Rightarrow> nat \<Rightarrow> 's \<Rightarrow> error + OptimizeResult list" where
  "restart_results lib f 0 s = Inr []"
| "restart_results lib f (Suc k) s =
     (let (pp0, s') = draw_pp0 lib s
      in bindE (minimize lib f pp0 True) (\<lambda>r.
         bindE (restart_results lib f k s') (\<lambda>rs. Inr (r # rs))))"

definition all_minimizations ::
    "'s numlib \<Rightarrow> (float64 list \<Rightarrow> error + float64) \<Rightarrow> error + OptimizeResult list" where
  "all_minimizations lib f =
     (let (pp0, s1) = draw_pp0 lib (random_seed lib 1)
      in bindE (minimize lib f pp0 False) (\<lambda>r.
         bindE (restart_results lib f 10 s1) (\<lambda>rs. Inr (r # rs))))"


section \<open>\<open>BayesianInference\<close>\<close>

definition py_int :: "real \<Rightarrow> int" where
  \<comment> \<open>\<open>int(x)\<close>: truncation towards zero\<close>
  "py_int x = (if 0 \<le> x then \<lfloor>x\<rfloor> else \<lceil>x\<rceil>)"

definition py_take :: "'a list \<Rightarrow> int \<Rightarrow> 'a list" where
  \<comment> \<open>\<open>v[:N]\<close>; a negative \<open>N\<close> counts from the end\<close>
  "py_take v N = (if 0 \<le> N then take (nat N) v else take (nat (int (length v) + N)) v)"

definition py_slice :: "'a list \<Rightarrow> nat \<Rightarrow> int \<Rightarrow> 'a list" where
  \<comment> \<open>\<open>v[lo:hi]\<close> for \<open>lo \<ge> 0\<close>\<close>
  "py_slice v lo hi = drop lo (py_take v hi)"

definition mean :: "real list \<Rightarrow> real" where
  \<comment> \<open>\<open>np.mean(v)\<close>; of an empty array it is \<open>nan\<close>, which no entry then receives\<close>
  "mean v = sum_list v / real (length v)"

definition arange :: "real \<Rightarrow> real \<Rightarrow> error + real list" where
  \<comment> \<open>\<open>np.arange(T, step=h)\<close> on Python floats: the \<open>ceil(T/h)\<close> values \<open>0, h, 2h, ...\<close>;
      a zero step raises ZeroDivisionError\<close>
  "arange T h = (if h = 0 then Inl ZeroDivisionError
                 else Inr (map (\<lambda>k. real k * h) [0..<nat \<lceil>T / h\<rceil>]))"

record inference =
  bi_y :: ndarray
  bi_tt :: "real list"
  bi_pp1 :: "float64 list"
  bi_sig :: float64
  bi_gam :: float64
  bi_AA :: ndarray
  bi_B :: ndarray
  bi_BB :: ndarray
  bi_CC :: ndarray
  bi_C0 :: "real list"
  bi_P0 :: ndarray
  bi_CC1 :: ndarray
  bi_GAI :: ndarray
  bi_M :: nat
  bi_m0 :: ndarray
  bi_phi :: float64
  bi_m_phi :: ndarray
  bi_Sig :: ndarray

record window =
  wc_w :: real
  wc_N :: nat
  wc_h :: real
  wc_y :: ndarray
  wc_tt :: "real list"
  wc_AA :: ndarray
  wc_a1 :: ndarray
  wc_a2 :: ndarray

definition BI_window :: "'s numlib \<Rightarrow> real list \<Rightarrow> real \<Rightarrow> params \<Rightarrow> error + window" where
  \<comment> \<open>lines 155-191 of \<open>BayesianInference(R_H, wd, n0, p)\<close>: the parameters, the window
      \<open>y\<close> and the transition matrices. \<open>np.zeros((2, 2*N))\<close> raises ValueError for a
      negative \<open>N\<close>.\<close>
  "BI_window lib R_H wd p =
     bindE (getitem p ''Bayes.fac'') (\<lambda>fac.
     bindE (getitem p ''CL.Q'') (\<lambda>Q. bindE (py_div 1 (to_real Q)) (\<lambda>Qi.
     let OmV = wd * (1 / 1000) in
     bindE (getitem p ''CL.f0'') (\<lambda>f0. let Om0 = to_real f0 * (1 / 1000) in
     bindE (py_div OmV Om0) (\<lambda>w.
     let L = generator Qi in
     bindE (getitem p ''CL.f0'') (\<lambda>wr1.
     bindE (py_div (real (length R_H)) (to_real fac)) (\<lambda>q. let N = py_int q in
     bindE (getitem p ''Sim.Tmax'') (\<lambda>Tmax.
     bindE (py_div (to_real Tmax * to_real wr1 * 2 * pi) (to_real fac)) (\<lambda>T.
     let R_Hc = map (\<lambda>x. x - mean R_H) R_H;
         y = column (map (\<lambda>x. 1000000000 * x) (py_take R_Hc N))
     in if N < 0 then Inl ValueError
        else bindE (py_div T (real_of_int N)) (\<lambda>h.
             bindE (arange T h) (\<lambda>tt.
             let (AA, a1, a2) = transition lib L h (nat N)
             in Inr \<lparr>wc_w = w, wc_N = nat N, wc_h = h, wc_y = y, wc_tt = tt,
                     wc_AA = AA, wc_a1 = a1, wc_a2 = a2\<rparr>)))))))))))"

definition initial_m0 :: "ndarray \<Rightarrow> real \<Rightarrow> int \<Rightarrow> error + ndarray" where
  \<comment> \<open>\<open>m0 = np.concatenate((np.array([y[0] - (y[1]-y[0])]), np.array([(y[1] - y[0])/h]),
      np.zeros((n+1, 1))), axis=0)\<close>: IndexError when \<open>y\<close> has fewer than two rows;
      \<open>h\<close> is not zero where \<open>np.arange\<close> has returned\<close>
  "initial_m0 y h n =
     (if nrows y < 2 then Inl IndexError
      else if n + 1 < 0 then Inl ValueError
      else let y0 = entry y 0 0; y1 = entry y 1 0
           in Inr (column ([y0 - (y1 - y0), (y1 - y0) / h] @ replicate (nat (n + 1)) 0)))"

definition final_posterior ::
    "'s numlib \<Rightarrow> float64 list \<Rightarrow> window \<Rightarrow> int \<Rightarrow> nat \<Rightarrow> ndarray \<Rightarrow> real \<Rightarrow> pynum \<Rightarrow> error + inference" where
  \<comment> \<open>lines 283-302: the posterior at the chosen \<open>pp1\<close> (here the basis and the design
      matrix come before the prior), and the returned tuple\<close>
  "final_posterior lib pp1 wc n M m0 sigi aa =
     bindE (getidx pp1 2) (\<lambda>phi. bindE (getidx pp1 0) (\<lambda>sig. bindE (getidx pp1 1) (\<lambda>gam.
     bindE (B_phin64 phi (wc_w wc) (wc_tt wc) n) (\<lambda>B.
     bindE (design_matrix (wc_AA wc) (wc_a1 wc) (wc_a2 wc) B (wc_h wc)) (\<lambda>(BB, CC1, CC).
     bindE (prior_diag sigi sig n aa) (\<lambda>d.
     bindE (linalg_inv_diag d) (\<lambda>C0.
     bindE (obs_precision gam (wc_N wc)) (\<lambda>GAI.
     bindE (posterior lib (diag d) GAI CC (wc_y wc) m0 M (Some (- 1))) (\<lambda>(Sig, m_phi).
     Inr \<lparr>bi_y = wc_y wc, bi_tt = wc_tt wc, bi_pp1 = pp1, bi_sig = sig, bi_gam = gam,
          bi_AA = wc_AA wc, bi_B = B, bi_BB = BB, bi_CC = CC, bi_C0 = C0, bi_P0 = diag d,
          bi_CC1 = CC1, bi_GAI = GAI, bi_M = M, bi_m0 = m0, bi_phi = phi, bi_m_phi = m_phi,
          bi_Sig = Sig\<rparr>)))))))))"

record design =
  ds_wc :: window
  ds_n :: int
  ds_aa :: pynum
  ds_M :: nat
  ds_P0 :: ndarray
  ds_C0 :: "real list"
  ds_GAI :: ndarray
  ds_m0 :: ndarray
  ds_B :: ndarray
  ds_BB :: ndarray
  ds_CC1 :: ndarray
  ds_CC :: ndarray

definition BI_design :: "'s numlib \<Rightarrow> real list \<Rightarrow> real \<Rightarrow> params \<Rightarrow> error + design" where
  \<comment> \<open>lines 155-224 of \<open>BayesianInference\<close>: the window, then the hyperparameters
      \<open>sigi = 3; sig = 1; gam = 0.1; phi = 1\<close>, the prior and the first design matrix.
      A float \<open>Bayes.Npoly\<close> passes the prior and fails in \<open>np.zeros((n+1, 1))\<close> with
      TypeError.\<close>
  "BI_design lib R_H wd p =
     bindE (BI_window lib R_H wd p) (\<lambda>wc.
     bindE (getitem p ''Bayes.Npoly'') (\<lambda>npoly.
     bindE (getitem p ''Bayes.aa'') (\<lambda>aa.
     case npoly of
       PyFloat x \<Rightarrow> if nrows (wc_y wc) < 2 then Inl IndexError else Inl TypeError
     | PyInt n \<Rightarrow>
         bindE (prior_diag 3 (Fin 1) n aa) (\<lambda>d.
         bindE (linalg_inv_diag d) (\<lambda>C0.
         bindE (obs_precision (Fin (1 / 10)) (wc_N wc)) (\<lambda>GAI.
         bindE (initial_m0 (wc_y wc) (wc_h wc) n) (\<lambda>m0.
         bindE (B_phin 1 (wc_w wc) (wc_tt wc) n) (\<lambda>B.
         bindE (design_matrix (wc_AA wc) (wc_a1 wc) (wc_a2 wc) B (wc_h wc)) (\<lambda>(BB, CC1, CC).
         Inr \<lparr>ds_wc = wc, ds_n = n, ds_aa = aa, ds_M = nat (2 + n + 1), ds_P0 = diag d,
              ds_C0 = C0, ds_GAI = GAI, ds_m0 = m0, ds_B = B, ds_BB = BB, ds_CC1 = CC1,
              ds_CC = CC\<rparr>)))))))))"

definition objective :: "'s numlib \<Rightarrow> design \<Rightarrow> float64 list \<Rightarrow> error + float64" where
  \<comment> \<open>\<open>lambda pp: _mmlenn(pp, w, tt, AA, a1, a2, y, n, M, h, m0, sigi, aa)\<close>\<close>
  "objective lib ds pp =
     mmlenn lib pp (wc_w (ds_wc ds)) (wc_tt (ds_wc ds)) (wc_AA (ds_wc ds)) (wc_a1 (ds_wc ds))
       (wc_a2 (ds_wc ds)) (wc_y (ds_wc ds)) (ds_n ds) (ds_M ds) (wc_h (ds_wc ds)) (ds_m0 ds) 3
       (ds_aa ds)"

definition BayesianInference ::
    "'s numlib \<Rightarrow> real list \<Rightarrow> real \<Rightarrow> real \<Rightarrow> params \<Rightarrow> error + inference" where
  \<comment> \<open>\<open>BayesianInference(R_H, wd, n0, p)\<close>: the first posterior (with \<open>rcond=None\<close>),
      the optimizer and the posterior at its result. The relative error \<open>rrmse\<close> is
      computed and dropped, and raises nothing.\<close>
  "BayesianInference lib R_H wd n0 p =
     bindE (BI_design lib R_H wd p) (\<lambda>ds.
     bindE (posterior lib (ds_P0 ds) (ds_GAI ds) (ds_CC ds) (wc_y (ds_wc ds)) (ds_m0 ds) (ds_M ds)
              None) (\<lambda>(Sig, m_phi).
     bindE (optimize lib (objective lib ds)) (\<lambda>(pp1, fvalg).
     final_posterior lib pp1 (ds_wc ds) (ds_n ds) (ds_M ds) (ds_m0 ds) 3 (ds_aa ds))))"

section \<open>The result summarizer \<open>processResults\<close> and \<open>process_pixel\<close>\<close>

definition entries :: "ndarray \<Rightarrow> real list" where
  \<comment> \<open>all entries of an array, row after row\<close>
  "entries A = concat (map (\<lambda>i. map (\<lambda>j. entry A i j) [0..<ncols A]) [0..<nrows A])"

definition norm2 :: "ndarray \<Rightarrow> real" where
  \<comment> \<open>\<open>np.linalg.norm(A)\<close>\<close>
  "norm2 A = sqrt (sum_list (map (\<lambda>x. x ^ 2) (entries A)))"

definition var :: "real list \<Rightarrow> real" where
  \<comment> \<open>\<open>np.var(v)\<close>: the mean of the squared deviations from the mean\<close>
  "var v = mean (map (\<lambda>x. (x - mean v) ^ 2) v)"

definition polyval3 :: "ndarray \<Rightarrow> real list \<Rightarrow> ndarray" where
  \<comment> \<open>\<open>np.polyval(p1, x1)\<close> for the three rows of \<open>p1\<close> and the column \<open>x1\<close>:
      \<open>y = zeros_like(x); for pv in p: y = y * x + pv\<close>\<close>
  "polyval3 p1 x1 =
     \<lparr>nrows = length x1, ncols = ncols p1,
      entry = (\<lambda>i j. ((0 * (x1 ! i) + entry p1 0 j) * (x1 ! i) + entry p1 1 j) * (x1 ! i) + entry p1 2 j)\<rparr>"

definition rsq_of :: "real \<Rightarrow> float64 \<Rightarrow> float64" where
  \<comment> \<open>\<open>1 - SSresid/SStotal\<close> for one entry of \<open>SSresid\<close>, on floats (numpy warns and goes
      on): a non-zero number over zero is infinite, zero over zero is \<open>nan\<close>, and a number
      over \<open>nan\<close> is \<open>nan\<close>\<close>
  "rsq_of SSresid SStotal =
     (case SStotal of
        Fin t \<Rightarrow> if t = 0
                 then (if SSresid = 0 then NaN else if 0 < SSresid then NInf else PInf)
                 else Fin (1 - SSresid / t)
      | NaN \<Rightarrow> NaN
      | _ \<Rightarrow> Fin 1)"

definition polyfit_call :: "'s numlib \<Rightarrow> real list \<Rightarrow> ndarray \<Rightarrow> nat \<Rightarrow> error + ndarray" where
  \<comment> \<open>\<open>np.polyfit(x, y, deg)\<close> for a one-dimensional \<open>x\<close> and a two-dimensional \<open>y\<close>:
      TypeError for an empty \<open>x\<close> and where \<open>y\<close> has another number of rows; the
      coefficients have \<open>deg + 1\<close> rows and the columns of \<open>y\<close>\<close>
  "polyfit_call lib x y deg =
     (if x = [] \<or> length x \<noteq> nrows y then Inl TypeError
      else bindE (polyfit lib x y deg) (\<lambda>p. Inr (p\<lparr>nrows := deg + 1, ncols := ncols y\<rparr>)))"

record fit_stats =
  st_rrmse :: "real option"
  st_x1 :: "real list"
  st_y1 :: ndarray
  st_p1 :: ndarray
  st_yfit :: ndarray
  st_yresid :: ndarray
  st_SSresid :: "real list"
  st_SStotal :: float64
  st_rsq :: "float64 list"

definition fit_statistics ::
    "'s numlib \<Rightarrow> real \<Rightarrow> real \<Rightarrow> real list \<Rightarrow> real \<Rightarrow> ndarray \<Rightarrow> ndarray \<Rightarrow> nat \<Rightarrow> ndarray \<Rightarrow> ndarray
       \<Rightarrow> error + fit_stats" where
  \<comment> \<open>lines 394-403 of \<open>processResults\<close>. \<open>rrmse\<close> is \<open>None\<close> where the norm of \<open>y\<close>
      is 0. \<open>sum(yresid**2)\<close> adds the rows, which gives one sum for each column, and
      \<open>rsq\<close> has one entry for each column. The variance of an empty array is \<open>nan\<close>.\<close>
  "fit_statistics lib Vac w_ang tt1 phi B m_phi M y CC =
     bindE (matmul CC m_phi) (\<lambda>Cm. bindE (broadcast (-) y Cm) (\<lambda>res.
     let rrmse = (if norm2 y = 0 then None else Some (norm2 res / norm2 y));
         x1 = map (\<lambda>t. Vac * sin (w_ang * t + phi)) tt1
     in bindE (matmul (rows_step2 B 1) (rows_range m_phi 2 (M + 1))) (\<lambda>y1.
        bindE (polyfit_call lib x1 y1 2) (\<lambda>p1. let yfit = polyval3 p1 x1 in
        bindE (broadcast (-) y1 yfit) (\<lambda>yresid.
        let SSresid = map (\<lambda>j. \<Sum>i<nrows yresid. entry yresid i j ^ 2) [0..<ncols yresid];
            SStotal = (if array_size y1 = 0 then NaN
                       else Fin ((real (array_size y1) - 1) * var (entries y1)))
        in Inr \<lparr>st_rrmse = rrmse, st_x1 = x1, st_y1 = y1, st_p1 = p1, st_yfit = yfit,
                st_yresid = yresid, st_SSresid = SSresid, st_SStotal = SStotal,
                st_rsq = map (\<lambda>s. rsq_of s SStotal) SSresid\<rparr>)))))"

datatype pyobj = Module | Function | Array "real list"

definition module_globals :: "string \<Rightarrow> pyobj option" where
  \<comment> \<open>the names that the module binds: its imports and its functions\<close>
  "module_globals =
     map_of [(''plt'', Module), (''spo'', Module), (''spla'', Module), (''np'', Module),
             (''time'', Module), (''process_pixel'', Function),
             (''get_default_parameters'', Function), (''_B_phin'', Function),
             (''_mmlenn'', Function), (''BayesianInference'', Function),
             (''processResults'', Function)]"

definition load_global :: "(string \<Rightarrow> pyobj option) \<Rightarrow> string \<Rightarrow> error + pyobj" where
  \<comment> \<open>a name that the function does not assign: looked up in the module, then in the
      builtins, else NameError\<close>
  "load_global builtins x =
     (case module_globals x of
        Some v \<Rightarrow> Inr v
      | None \<Rightarrow> (case builtins x of Some v \<Rightarrow> Inr v | None \<Rightarrow> Inl (NameError x)))"

record summary =
  sm_phi :: real
  sm_snr :: pynum
  sm_rrmse :: "real option"
  sm_force :: ndarray
  sm_R_seg :: "real list"
  sm_resid :: ndarray
  sm_p1 :: ndarray
  sm_S :: pyobj
  sm_rsq :: "float64 list"

datatype results = Figures | Summary summary

definition processResults ::
    "'s numlib \<Rightarrow> (string \<Rightarrow> pyobj option) \<Rightarrow> params \<Rightarrow> real list \<Rightarrow> real \<Rightarrow> real list \<Rightarrow> nat
       \<Rightarrow> ndarray \<Rightarrow> ndarray \<Rightarrow> ndarray \<Rightarrow> ndarray \<Rightarrow> ndarray \<Rightarrow> bool \<Rightarrow> bool \<Rightarrow> error + results" where
  \<comment> \<open>\<open>processResults(p, R_H, wd, Rforce, M, Sig, B, m_phi, y, CC, graph, verbose)\<close>;
      the tuple of the last line is evaluated from left to right\<close>
  "processResults lib builtins p R_H wd Rforce M Sig B m_phi y CC graph verbose =
     bindE (getitem p ''Sim.Tmax'') (\<lambda>t_max. bindE (getitem p ''Bayes.fac'') (\<lambda>fac.
     bindE (getitem p ''CL.f0'') (\<lambda>wr1. bindE (getitem p ''Sim.VAmp'') (\<lambda>Vac.
     bindE (getitem p ''Sim.Phasshift'') (\<lambda>phi.
     bindE (py_div (real (length R_H)) (to_real fac)) (\<lambda>q. let N1 = py_int q in
     bindE (py_div (wd * (1 / 1000)) (to_real wr1 * (1 / 1000))) (\<lambda>w.
     bindE (py_div (to_real t_max * to_real wr1 * 2 * pi) (to_real fac)) (\<lambda>T.
     bindE (getitem p ''Sim.Tmax'') (\<lambda>t_max'. bindE (py_div (to_real t_max') (to_real fac)) (\<lambda>Tsec.
     bindE (py_div T (real_of_int N1)) (\<lambda>h. bindE (arange T h) (\<lambda>tt.
     bindE (py_div Tsec (real_of_int N1)) (\<lambda>h1. bindE (arange Tsec h1) (\<lambda>tt1.
     let w_ang = wd * 2 * pi;
         R = map (\<lambda>x. x - mean Rforce) Rforce;
         R_seg = map (\<lambda>x. x * 1000000000) (py_slice R (1000 + 1) (1000 + N1 + 1))
     in bindE (if graph then plotting lib verbose else Inr ()) (\<lambda>u.
        bindE (fit_statistics lib (to_real Vac) w_ang tt1 (to_real phi) B m_phi M y CC) (\<lambda>st.
        if graph then bindE (plotting lib verbose) (\<lambda>u. Inr Figures)
        else bindE (getitem p ''Sim.snr'') (\<lambda>snr.
             bindE (matmul (rows_step2 B 1) (rows_range m_phi 2 (M + 1))) (\<lambda>force.
             bindE (matmul CC m_phi) (\<lambda>Cm. bindE (broadcast (-) y Cm) (\<lambda>resid.
             bindE (load_global builtins ''S'') (\<lambda>S.
             Inr (Summary \<lparr>sm_phi = to_real phi, sm_snr = snr, sm_rrmse = st_rrmse st,
                           sm_force = force, sm_R_seg = R_seg, sm_resid = resid,
                           sm_p1 = st_p1 st, sm_S = S, sm_rsq = st_rsq st\<rparr>))))))))))))))))))))))"

definition process_pixel ::
    "'s numlib \<Rightarrow> (string \<Rightarrow> pyobj option) \<Rightarrow> real list \<Rightarrow> real \<Rightarrow> real \<Rightarrow> params \<Rightarrow> bool \<Rightarrow> bool
       \<Rightarrow> error + results" where
  \<comment> \<open>\<open>process_pixel(R_H, wd, n0, p, graph, verbose)\<close>: the call of \<open>processResults\<close>
      loads the function, then its arguments in order; \<open>Rforce\<close> is not a local name\<close>
  "process_pixel lib builtins R_H wd n0 p graph verbose =
     bindE (BayesianInference lib R_H wd n0 p) (\<lambda>bi.
     bindE (load_global builtins ''processResults'') (\<lambda>f.
     bindE (load_global builtins ''Rforce'') (\<lambda>obj.
       case obj of
         Array Rforce \<Rightarrow> processResults lib builtins p R_H wd Rforce (bi_M bi) (bi_Sig bi) (bi_B bi)
                           (bi_m_phi bi) (bi_y bi) (bi_CC bi) graph verbose
       | _ \<Rightarrow> Inl TypeError)))"

definition get_default_parameters :: params where
  \<comment> \<open>\<open>get_default_parameters()\<close>\<close>
  "get_default_parameters =
     map_of [(''SYS.dzds'', PyFloat (81 / 10 ^ 15)), (''SYS.INVOLS'', PyFloat (525 / 10 ^ 10)),
             (''CL.f0'', PyFloat 58000), (''CL.Q'', PyInt 115), (''CL.k'', PyFloat (28 / 10)),
             (''CL.A'', PyInt 1), (''CL.T'', PyFloat (27315 / 100 + 238 / 10)),
             (''CL.f1'', PyFloat 350000), (''CL.Q1'', PyInt 350), (''CL.A1'', PyFloat 0),
             (''Tip.c_angle'', PyFloat (32 * pi / 180)), (''TS.Rtip'', PyFloat (20 / 10 ^ 9)),
             (''TS.Rheight'', PyFloat (22 / 10 ^ 6)), (''TS.eps_z'', PyFloat (885 / 10 ^ 14)),
             (''TS.alpha'', PyFloat (- 12300000000)), (''TS.beta'', PyFloat 12300000000),
             (''Sim.Tmax'', PyFloat (4096 / 10 ^ 6 * 2)), (''Sim.IOrate'', PyFloat 4000000),
             (''Sim.Vfreq'', PyFloat 56000), (''Sim.VAmp'', PyInt 3), (''Sim.VCPD'', PyInt (- 1)),
             (''Sim.VDC'', PyInt 0), (''Sim.Phasshift'', PyFloat (2 / 10)),
             (''Sim.NAmp'', PyFloat (1 / 10 ^ 6)), (''Sim.snr'', PyInt 12),
             (''Bayes.fac'', PyInt 128), (''Bayes.Npoly'', PyInt 2), (''Bayes.aa'', PyInt 2)]"

section \<open>A concrete library\<close>

text \<open>
  A small library instance, at which the theorems below are instantiated: the exponential
  returns its argument, the solver its right-hand side, the minimizer its starting point.
\<close>

definition small_lib :: "nat numlib" where
  "small_lib =
     \<lparr>expm = (\<lambda>A. A),
      lstsq = (\<lambda>A B rcond. Inr B),
      eig = (\<lambda>A. map (\<lambda>i. entry A i i) [0..<nrows A]),
      minimize = (\<lambda>f x0 tight. case f (map Fin x0) of Inl e \<Rightarrow> Inl e
                     | Inr v \<Rightarrow> Inr \<lparr>res_x = map Fin x0, res_fun = v\<rparr>),
      random_seed = (\<lambda>sd. sd),
      randn = (\<lambda>s. (1, s + 1)),
      rand = (\<lambda>s. (1 / 2, s + 1)),
      polyfit = (\<lambda>x y deg. Inr (zeros (deg + 1) (ncols y))),
      plotting = (\<lambda>verbose. Inr ())\<rparr>"

definition stuck_lib :: "nat numlib" where
  \<comment> \<open>the same with a minimizer that ends, each time, at the point \<open>(1, 1, 1)\<close>, whose
      phase is not feasible, with the value \<open>+inf\<close>\<close>
  "stuck_lib = small_lib\<lparr>minimize := (\<lambda>f x0 tight. Inr \<lparr>res_x = [Fin 1, Fin 1, Fin 1], res_fun = PInf\<rparr>)\<rparr>"




definition unit_parameters :: params where
  \<comment> \<open>the default parameters with \<open>Bayes.fac = 1\<close>\<close>
  "unit_parameters = get_default_parameters(''Bayes.fac'' \<mapsto> PyInt 1)"

definition half_parameters :: params where
  \<comment> \<open>the default parameters with \<open>Bayes.fac = 0.5\<close>\<close>
  "half_parameters = get_default_parameters(''Bayes.fac'' \<mapsto> PyFloat (1 / 2))"

definition some_builtins :: "string \<Rightarrow> pyobj option" where
  \<comment> \<open>the builtins that the module uses\<close>
  "some_builtins = map_of [(''int'', Function), (''float'', Function), (''sum'', Function),
                           (''range'', Function)]"

definition design_rows :: "design \<Rightarrow> nat \<times> nat \<times> nat \<times> nat" where
  \<comment> \<open>the rows of \<open>CC1\<close>, the rows and columns of \<open>CC\<close>, and the rows of \<open>y\<close>\<close>
  "design_rows ds =
     (nrows (ds_CC1 ds), nrows (ds_CC ds), ncols (ds_CC ds), nrows (wc_y (ds_wc ds)))"

definition mm :: "ndarray \<Rightarrow> ndarray \<Rightarrow> ndarray" where
  \<comment> \<open>the matrix product, which \<open>np.matmul\<close> returns where the inner dimensions agree\<close>
  "mm A B = \<lparr>nrows = nrows A, ncols = ncols B,
              entry = (\<lambda>i j. \<Sum>k<ncols A. entry A i k * entry B k j)\<rparr>"

section \<open>Sequencing\<close>

lemma bindE_Inr [simp]: "bindE (Inr v) f = f v"
  by (simp add: bindE_def)

lemma bindE_Inl [simp]: "bindE (Inl e) f = Inl e"
  by (simp add: bindE_def)

lemma bindE_eq_Inr: "bindE m f = Inr v \<longleftrightarrow> (\<exists>a. m = Inr a \<and> f a = Inr v)"
  by (cases m) simp_all

lemma bindE_InrE:
  assumes "bindE m f = Inr v"
  obtains a where "m = Inr a" "f a = Inr v"
  using assms by (auto simp add: bindE_eq_Inr)

section \<open>Properties of the basis builder\<close>

lemma assign_odd_rows_shape:
  "nrows (assign_odd_rows Bn stop i v) = nrows Bn"
  "ncols (assign_odd_rows Bn stop i v) = ncols Bn"
  by (simp_all add: assign_odd_rows_def)

lemma assign_odd_rows_entry:
  "entry (assign_odd_rows Bn stop i v) r c =
     (if c = i \<and> odd r \<and> r < min stop (nrows Bn) then v ! (r div 2) else entry Bn r c)"
  by (simp add: assign_odd_rows_def)

lemma B_phin_loop_shape:
  "nrows (fold (\<lambda>i Bn. assign_odd_rows Bn stop i (f i)) [0..<m] B0) = nrows B0 \<and>
   ncols (fold (\<lambda>i Bn. assign_odd_rows Bn stop i (f i)) [0..<m] B0) = ncols B0"
  by (induction m) (simp_all add: assign_odd_rows_shape)

lemma B_phin_loop_entry:
  "entry (fold (\<lambda>i Bn. assign_odd_rows Bn stop i (f i)) [0..<m] B0) r c =
     (if c < m \<and> odd r \<and> r < min stop (nrows B0) then f c ! (r div 2) else entry B0 r c)"
proof (induction m)
  case 0
  show ?case by simp
next
  case (Suc m)
  let ?Bm = "fold (\<lambda>i Bn. assign_odd_rows Bn stop i (f i)) [0..<m] B0"
  have shape: "nrows ?Bm = nrows B0"
    using B_phin_loop_shape [of stop f m B0] by simp
  have step: "fold (\<lambda>i Bn. assign_odd_rows Bn stop i (f i)) [0..<Suc m] B0
                = assign_odd_rows ?Bm stop m (f m)"
    by simp
  have "entry (assign_odd_rows ?Bm stop m (f m)) r c =
          (if c = m \<and> odd r \<and> r < min stop (nrows B0) then f m ! (r div 2) else entry ?Bm r c)"
    by (simp only: assign_odd_rows_entry shape)
  with Suc.IH show ?case
    unfolding step by (auto simp add: less_Suc_eq)
qed

text \<open>
  C8. For every phase, frequency, time vector of length \<open>N\<close> and polynomial order
  \<open>n \<ge> 0\<close>, \<open>_B_phin\<close> returns (raising nothing) a matrix of shape \<open>(2N, n+1)\<close> whose
  rows of even 0-based index are zero and whose rows of odd index hold, in column
  \<open>i\<close>, \<open>sin(w t + phi)^i\<close> at the entries of \<open>tt\<close>.
\<close>

theorem B_phin_basis:
  assumes "0 \<le> n"
  shows "\<exists>Bn. B_phin phi w tt n = Inr Bn
          \<and> nrows Bn = 2 * length tt \<and> int (ncols Bn) = n + 1
          \<and> (\<forall>r < 2 * length tt. \<forall>i < ncols Bn. even r \<longrightarrow> entry Bn r i = 0)
          \<and> (\<forall>k < length tt. \<forall>i < ncols Bn. entry Bn (2 * k + 1) i = sin (w * tt ! k + phi) ^ i)"
proof -
  let ?N = "length tt"
  let ?f = "\<lambda>i. map (\<lambda>t. sin (w * t + phi) ^ i) tt"
  let ?B = "fold (\<lambda>i Bn. assign_odd_rows Bn (2 * ?N + 1) i (?f i)) [0..<nat (n + 1)]
              (zeros (2 * ?N) (nat (n + 1)))"
  have ret: "B_phin phi w tt n = Inr ?B"
    using assms by (simp add: B_phin_def Let_def)
  have shape: "nrows ?B = 2 * ?N" "ncols ?B = nat (n + 1)"
    using B_phin_loop_shape [of "2 * ?N + 1" ?f "nat (n + 1)" "zeros (2 * ?N) (nat (n + 1))"]
    by (simp_all add: zeros_def)
  have even_rows: "entry ?B r i = 0" if "even r" for r i
    using that by (simp add: B_phin_loop_entry zeros_def)
  have odd_rows: "entry ?B (2 * k + 1) i = sin (w * tt ! k + phi) ^ i"
    if "k < ?N" "i < nat (n + 1)" for k i
    using that by (simp add: B_phin_loop_entry zeros_def)
  show ?thesis
    using ret shape even_rows odd_rows assms by auto
qed

theorem B_phin_basis_witness:
  "(0::int) \<le> 2 \<and> (\<exists>Bn. B_phin 0 1 [0, 1] 2 = Inr Bn
          \<and> nrows Bn = 2 * length [0, 1::real] \<and> int (ncols Bn) = 2 + 1
          \<and> (\<forall>r < 2 * length [0, 1::real]. \<forall>i < ncols Bn. even r \<longrightarrow> entry Bn r i = 0)
          \<and> (\<forall>k < length [0, 1::real]. \<forall>i < ncols Bn.
                 entry Bn (2 * k + 1) i = sin (1 * [0, 1] ! k + 0) ^ i))"
proof -
  have h: "(0::int) \<le> 2" by simp
  show ?thesis
    using h B_phin_basis [OF h, of 0 1 "[0, 1]"] by blast
qed

section \<open>Properties of the state-transition assembler\<close>

lemma smul_shape: "nrows (smul A c) = nrows A" "ncols (smul A c) = ncols A"
  by (simp_all add: smul_def)

lemma assign_col_block_shape:
  "nrows (assign_col_block A i E) = nrows A" "ncols (assign_col_block A i E) = ncols A"
  by (simp_all add: assign_col_block_def)

lemma assign_col_block_entry:
  "entry (assign_col_block A i E) r c =
     (if 2 * i \<le> c \<and> c < 2 * (i + 1) \<and> c < ncols A then entry E r (c - 2 * i) else entry A r c)"
  by (simp add: assign_col_block_def)

lemma transition_A_loop_shape:
  "nrows (fold (\<lambda>i A. assign_col_block A i (E i)) [0..<m] A0) = nrows A0 \<and>
   ncols (fold (\<lambda>i A. assign_col_block A i (E i)) [0..<m] A0) = ncols A0"
  by (induction m) (simp_all add: assign_col_block_shape)

lemma transition_A_loop_entry:
  "entry (fold (\<lambda>i A. assign_col_block A i (E i)) [0..<m] A0) r c =
     (if c < 2 * m \<and> c < ncols A0 then entry (E (c div 2)) r (c mod 2) else entry A0 r c)"
proof (induction m)
  case 0
  show ?case by simp
next
  case (Suc m)
  let ?Am = "fold (\<lambda>i A. assign_col_block A i (E i)) [0..<m] A0"
  have shape: "ncols ?Am = ncols A0"
    using transition_A_loop_shape [of E m A0] by simp
  have step: "fold (\<lambda>i A. assign_col_block A i (E i)) [0..<Suc m] A0 = assign_col_block ?Am m (E m)"
    by simp
  have here: "c div 2 = m \<and> c - 2 * m = c mod 2" if "2 * m \<le> c" "c < 2 * (m + 1)"
    using that by presburger
  have below: "c < 2 * m \<or> (2 * m \<le> c \<and> c < 2 * (m + 1))" if "c < 2 * Suc m"
    using that by presburger
  show ?case
    unfolding step assign_col_block_entry shape Suc.IH
    using here below by auto
qed

lemma transition_A_shape:
  "nrows (transition_A lib L h N) = 2" "ncols (transition_A lib L h N) = 2 * N"
  using transition_A_loop_shape [of "\<lambda>i. step_block lib L h (i + 1)" N "zeros 2 (2 * N)"]
  by (simp_all add: transition_A_def zeros_def)

lemma transition_A_entry:
  "entry (transition_A lib L h N) r c =
     (if c < 2 * N then entry (step_block lib L h (c div 2 + 1)) r (c mod 2) else 0)"
  by (simp add: transition_A_def transition_A_loop_entry zeros_def)


lemma transition_A1_shape:
  "nrows (transition_A1 A) = nrows A" "ncols (transition_A1 A) = ncols A"
  by (simp_all add: transition_A1_def Let_def assign_cols_step2_def smul_def)

lemma transition_A1_entry:
  assumes "ncols A = 2 * N" "c < 2 * N"
  shows "entry (transition_A1 A) r c = entry A r (2 * (N - 1 - c div 2) + c mod 2)"
proof (cases "even c")
  case True
  then show ?thesis
    using assms
    by (auto simp add: transition_A1_def Let_def assign_cols_step2_def smul_def fliplr_def
          cols_step2_def elim!: evenE)
next
  case False
  then obtain k where k: "c = 2 * k + 1" by (elim oddE)
  show ?thesis
    using assms k
    by (auto simp add: transition_A1_def Let_def assign_cols_step2_def smul_def fliplr_def
          cols_step2_def)
qed

lemma cols_from_neg_entry:
  assumes "ncols A1 = 2 * N" "j \<le> N" "0 < j"
  shows "entry (cols_from A1 (- 2 * int j)) r c = entry A1 r (2 * N - 2 * j + c)"
    and "ncols (cols_from A1 (- 2 * int j)) = 2 * j"
    and "nrows (cols_from A1 (- 2 * int j)) = nrows A1"
  using assms by (auto simp add: cols_from_def Let_def nat_diff_distrib' nat_mult_distrib max_def)


lemma assign_row_block_shape:
  "nrows (assign_row_block AA j X) = nrows AA" "ncols (assign_row_block AA j X) = ncols AA"
  by (simp_all add: assign_row_block_def)

lemma assign_row_block_entry:
  "entry (assign_row_block AA j X) r c =
     (if 2 * j \<le> r \<and> r < 2 * (j + 1) \<and> r < nrows AA \<and> c < 2 * j \<and> c < ncols AA
      then entry X (r - 2 * j) c else entry AA r c)"
  by (simp add: assign_row_block_def)

lemma transition_AA_loop_shape:
  "nrows (fold (\<lambda>j AA. assign_row_block AA j (X j)) [1..<m] AA0) = nrows AA0 \<and>
   ncols (fold (\<lambda>j AA. assign_row_block AA j (X j)) [1..<m] AA0) = ncols AA0"
  by (induction m) (simp_all add: assign_row_block_shape)

lemma transition_AA_loop_entry:
  "entry (fold (\<lambda>j AA. assign_row_block AA j (X j)) [1..<m] AA0) r c =
     (if 2 \<le> r \<and> r < 2 * m \<and> r < nrows AA0 \<and> c < 2 * (r div 2) \<and> c < ncols AA0
      then entry (X (r div 2)) (r mod 2) c else entry AA0 r c)"
proof (induction m)
  case 0
  show ?case by simp
next
  case (Suc m)
  let ?AAm = "fold (\<lambda>j AA. assign_row_block AA j (X j)) [1..<m] AA0"
  have shape: "nrows ?AAm = nrows AA0" "ncols ?AAm = ncols AA0"
    using transition_AA_loop_shape [of X m AA0] by simp_all
  show ?case
  proof (cases "m = 0")
    case True
    then show ?thesis by simp
  next
    case False
    then have step: "fold (\<lambda>j AA. assign_row_block AA j (X j)) [1..<Suc m] AA0
                       = assign_row_block ?AAm m (X m)"
      by simp
    have here: "r div 2 = m \<and> r - 2 * m = r mod 2" if "2 * m \<le> r" "r < 2 * (m + 1)"
      using that by presburger
    have below: "r < 2 * m \<or> (2 * m \<le> r \<and> r < 2 * (m + 1))" if "r < 2 * Suc m"
      using that by presburger
    have two: "2 \<le> r" if "2 * m \<le> r"
      using that False by simp
    show ?thesis
      unfolding step assign_row_block_entry shape Suc.IH
      using here below two by auto
  qed
qed


lemma transition_AA_shape:
  "nrows (transition_AA A1 N) = 2 * N" "ncols (transition_AA A1 N) = 2 * N"
  using transition_AA_loop_shape [of "\<lambda>j. cols_from A1 (- 2 * int j)" N "zeros (2 * N) (2 * N)"]
  by (simp_all add: transition_AA_def zeros_def)

lemma transition_AA_entry:
  assumes "j < N" "k < N" "r < 2" "c < 2" "ncols A1 = 2 * N"
  shows "entry (transition_AA A1 N) (2 * j + r) (2 * k + c) =
           (if k < j then entry A1 r (2 * (N - j + k) + c) else 0)"
proof -
  have rdiv: "(2 * j + r) div 2 = j" "(2 * j + r) mod 2 = r"
    using assms(3) by simp_all
  have cond: "(2 \<le> 2 * j + r \<and> 2 * j + r < 2 * N \<and> 2 * j + r < 2 * N
                \<and> 2 * k + c < 2 * j \<and> 2 * k + c < 2 * N) = (k < j)"
    using assms(1-4) by auto
  have loop: "entry (transition_AA A1 N) (2 * j + r) (2 * k + c) =
                (if k < j then entry (cols_from A1 (- 2 * int j)) r (2 * k + c) else 0)"
    unfolding transition_AA_def transition_AA_loop_entry rdiv
    using cond by (simp add: zeros_def)
  show ?thesis
  proof (cases "k < j")
    case True
    then have "0 < j" "j \<le> N" using assms(1) by simp_all
    from cols_from_neg_entry(1) [OF assms(5) this(2) this(1)]
    have "entry (cols_from A1 (- 2 * int j)) r (2 * k + c) = entry A1 r (2 * N - 2 * j + (2 * k + c))" .
    moreover have "2 * N - 2 * j + (2 * k + c) = 2 * (N - j + k) + c"
      using assms(1) by simp
    ultimately show ?thesis using loop True by simp
  next
    case False
    then show ?thesis using loop by simp
  qed
qed

text \<open>
  C2. For every step size \<open>h\<close> and sample count \<open>N\<close>, the matrix \<open>AA\<close> that
  \<open>BayesianInference\<close> assembles is \<open>2N \<times> 2N\<close>, and its \<open>2 \<times> 2\<close> block at block-row
  \<open>j\<close> and block-column \<open>k\<close> is \<open>expm(L*h*(j-k))\<close> when \<open>k < j\<close> and zero when
  \<open>k \<ge> j\<close>.
\<close>

theorem transition_AA_blocks:
  assumes "j < N" "k < N" "r < 2" "c < 2"
  shows "nrows (fst (transition lib L h N)) = 2 * N
       \<and> ncols (fst (transition lib L h N)) = 2 * N
       \<and> entry (fst (transition lib L h N)) (2 * j + r) (2 * k + c) =
           (if k < j then entry (expm lib (smul (smul L h) (real (j - k)))) r c else 0)"
proof -
  let ?A = "transition_A lib L h N"
  have A1cols: "ncols (transition_A1 ?A) = 2 * N"
    by (simp add: transition_A1_shape transition_A_shape)
  have blocks: "entry (transition_AA (transition_A1 ?A) N) (2 * j + r) (2 * k + c) =
                  (if k < j then entry (transition_A1 ?A) r (2 * (N - j + k) + c) else 0)"
    using transition_AA_entry [OF assms A1cols] .
  have inner: "entry (transition_A1 ?A) r (2 * (N - j + k) + c) = entry (step_block lib L h (j - k)) r c"
    if "k < j"
  proof -
    let ?C = "2 * (N - j + k) + c"
    have C: "?C < 2 * N" "?C div 2 = N - j + k" "?C mod 2 = c"
      using that assms by simp_all
    have "entry (transition_A1 ?A) r ?C = entry ?A r (2 * (N - 1 - ?C div 2) + ?C mod 2)"
      using transition_A1_entry [of ?A N ?C r] C(1) by (simp add: transition_A_shape)
    also have "2 * (N - 1 - ?C div 2) + ?C mod 2 = 2 * (j - k - 1) + c"
      unfolding C using that assms(1) by simp
    also have "entry ?A r (2 * (j - k - 1) + c) = entry (step_block lib L h (j - k)) r c"
    proof -
      have D: "2 * (j - k - 1) + c < 2 * N" "(2 * (j - k - 1) + c) div 2 + 1 = j - k"
        "(2 * (j - k - 1) + c) mod 2 = c"
        using that assms by simp_all
      show ?thesis
        unfolding transition_A_entry D using D(1) by simp
    qed
    finally show ?thesis .
  qed
  show ?thesis
    using blocks inner
    by (simp add: transition_def Let_def transition_AA_shape step_block_def)
qed

theorem transition_AA_blocks_witness:
  "(1::nat) < 2 \<and> (0::nat) < 2 \<and> (1::nat) < 2 \<and> (0::nat) < 2
     \<and> nrows (fst (transition small_lib (generator 1) 3 2)) = 2 * 2
     \<and> ncols (fst (transition small_lib (generator 1) 3 2)) = 2 * 2
     \<and> entry (fst (transition small_lib (generator 1) 3 2)) (2 * 1 + 1) (2 * 0 + 0) =
           (if (0::nat) < 1 then entry (expm small_lib (smul (smul (generator 1) 3) (real (1 - 0)))) 1 0 else 0)"
proof -
  have h: "(1::nat) < 2" "(0::nat) < 2" by simp_all
  show ?thesis
    using h transition_AA_blocks [OF h(1) h(2) h(1) h(2), of small_lib "generator 1" 3] by blast
qed

section \<open>Properties of the optimizer\<close>

lemma restarts_results:
  "restarts lib f k s best =
     bindE (restart_results lib f k s) (\<lambda>rs. Inr (foldl keep_best best rs))"
proof (induction k arbitrary: s best)
  case 0
  show ?case by simp
next
  case (Suc k)
  obtain pp0 s' where d: "draw_pp0 lib s = (pp0, s')" by (cases "draw_pp0 lib s")
  show ?case
  proof (cases "minimize lib f pp0 True")
    case (Inl e)
    then show ?thesis by (simp add: d)
  next
    case (Inr r)
    show ?thesis
      by (cases "restart_results lib f k s'") (simp_all add: d Inr Suc.IH)
  qed
qed


lemma optimize_results:
  "optimize lib f =
     bindE (all_minimizations lib f) (\<lambda>rs. Inr (foldl keep_best (res_x (hd rs), res_fun (hd rs)) (tl rs)))"
proof -
  obtain pp0 s1 where d: "draw_pp0 lib (random_seed lib 1) = (pp0, s1)"
    by (cases "draw_pp0 lib (random_seed lib 1)")
  show ?thesis
  proof (cases "minimize lib f pp0 False")
    case (Inl e)
    then show ?thesis by (simp add: optimize_def all_minimizations_def d del: One_nat_def)
  next
    case (Inr r)
    show ?thesis
      by (cases "restart_results lib f 10 s1")
         (simp_all add: optimize_def all_minimizations_def d Inr restarts_results del: One_nat_def)
  qed
qed

































section \<open>Shapes\<close>

lemma shape_simps [simp]:
  "nrows (zeros r c) = r" "ncols (zeros r c) = c"
  "nrows (smul A x) = nrows A" "ncols (smul A x) = ncols A"
  "nrows (add_scalar A x) = nrows A" "ncols (add_scalar A x) = ncols A"
  "nrows (eye N) = N" "ncols (eye N) = N"
  "nrows (diag v) = length v" "ncols (diag v) = length v"
  "nrows (column v) = length v" "ncols (column v) = 1"
  "nrows (transposeT A) = ncols A" "ncols (transposeT A) = nrows A"
  "nrows (reshape_col_F A) = nrows A * ncols A" "ncols (reshape_col_F A) = 1"
  "nrows (rows_step2 A s) = (nrows A - s + 1) div 2" "ncols (rows_step2 A s) = ncols A"
  "nrows (cols_step2 A s) = nrows A" "ncols (cols_step2 A s) = (ncols A - s + 1) div 2"
  "nrows (rows_range A lo hi) = min hi (nrows A) - lo" "ncols (rows_range A lo hi) = ncols A"
  by (simp_all add: zeros_def smul_def add_scalar_def eye_def diag_def column_def transposeT_def
        reshape_col_F_def rows_step2_def cols_step2_def rows_range_def)

lemma matmul_eq_Inr:
  "matmul A B = Inr C \<longleftrightarrow>
     ncols A = nrows B \<and>
     C = \<lparr>nrows = nrows A, ncols = ncols B, entry = (\<lambda>i j. \<Sum>k<ncols A. entry A i k * entry B k j)\<rparr>"
  by (auto simp add: matmul_def)

lemma matmul_shape:
  assumes "matmul A B = Inr C"
  shows "ncols A = nrows B" "nrows C = nrows A" "ncols C = ncols B"
  using assms by (auto simp add: matmul_def split: if_splits)

lemma matmul_returns:
  "ncols A = nrows B \<Longrightarrow> \<exists>C. matmul A B = Inr C"
  by (simp add: matmul_def)

lemma broadcast_shape:
  assumes "broadcast f A B = Inr C"
  shows "nrows C = (if nrows A = 1 then nrows B else nrows A)"
    "ncols C = (if ncols A = 1 then ncols B else ncols A)"
    "nrows A = nrows B \<or> nrows A = 1 \<or> nrows B = 1"
    "ncols A = ncols B \<or> ncols A = 1 \<or> ncols B = 1"
  using assms by (auto simp add: broadcast_def split: if_splits)

lemma broadcast_returns:
  "nrows A = nrows B \<Longrightarrow> ncols A = ncols B \<Longrightarrow> \<exists>C. broadcast f A B = Inr C"
  by (simp add: broadcast_def)

lemma concatenate3_shape:
  assumes "concatenate3 X Y Z = Inr C"
  shows "nrows C = nrows X" "ncols C = ncols X + ncols Y + ncols Z"
    "nrows X = nrows Y" "nrows Y = nrows Z"
  using assms by (auto simp add: concatenate3_def split: if_splits)

lemma transition_shapes:
  assumes "transition lib L h N = (AA, a1, a2)"
  shows "nrows AA = 2 * N" "ncols AA = 2 * N" "nrows a1 = 2" "ncols a1 = N"
    "nrows a2 = 2" "ncols a2 = N"
  using assms
  by (auto simp add: transition_def Let_def transition_AA_shape transition_A_shape)

lemma B_phin_shape:
  assumes "B_phin phi w tt n = Inr B"
  shows "nrows B = 2 * length tt" "int (ncols B) = n + 1" "0 \<le> n + 1"
proof -
  from assms have n: "0 \<le> n + 1"
    by (auto simp add: B_phin_def Let_def split: if_splits)
  let ?f = "\<lambda>i. map (\<lambda>t. sin (w * t + phi) ^ i) tt"
  from assms n have B: "B = fold (\<lambda>i Bn. assign_odd_rows Bn (2 * length tt + 1) i (?f i))
                              [0..<nat (n + 1)] (zeros (2 * length tt) (nat (n + 1)))"
    by (auto simp add: B_phin_def Let_def split: if_splits)
  show "nrows B = 2 * length tt" "int (ncols B) = n + 1" "0 \<le> n + 1"
    using n B_phin_loop_shape [of "2 * length tt + 1" ?f "nat (n + 1)" "zeros (2 * length tt) (nat (n + 1))"]
    unfolding B by simp_all
qed

lemma B_phin64_shape:
  assumes "B_phin64 phi w tt n = Inr B"
  shows "nrows B = 2 * length tt" "int (ncols B) = n + 1" "0 \<le> n + 1"
  using assms B_phin_shape
  by (auto simp add: B_phin64_def split: float64.splits if_splits)

lemma design_matrix_shape:
  assumes "design_matrix AA a1 a2 B h = Inr (BB, CC1, CC)"
  shows "ncols AA = nrows B" "nrows CC1 = nrows a1 * ncols a1" "nrows CC1 = nrows AA"
    "nrows a2 * ncols a2 = nrows a1 * ncols a1"
    "ncols CC1 = 2 + ncols B" "nrows CC = (nrows CC1 + 1) div 2" "ncols CC = 2 + ncols B"
    "nrows BB = nrows AA" "ncols BB = ncols B"
proof -
  from assms obtain AB where AB: "matmul AA B = Inr AB"
    and cat: "concatenate3 (reshape_col_F a1) (reshape_col_F a2) (smul AB h) = Inr CC1"
    and BB: "BB = smul AB h" and CC: "CC = rows_step2 CC1 0"
    by (auto simp add: design_matrix_def Let_def bindE_eq_Inr)
  note m = matmul_shape [OF AB] and c = concatenate3_shape [OF cat]
  show "ncols AA = nrows B" using m by simp
  show "nrows CC1 = nrows a1 * ncols a1" using c by simp
  show "nrows CC1 = nrows AA" using c m by simp
  show "nrows a2 * ncols a2 = nrows a1 * ncols a1" using c by simp
  show "ncols CC1 = 2 + ncols B" using c m by simp
  show "nrows CC = (nrows CC1 + 1) div 2" using CC by simp
  show "ncols CC = 2 + ncols B" using CC c m by simp
  show "nrows BB = nrows AA" using BB m by simp
  show "ncols BB = ncols B" using BB m by simp
qed

lemma arange_length:
  assumes "py_div T (real_of_int N) = Inr h" "arange T h = Inr tt" "0 \<le> N"
  shows "length tt = nat N" "0 < N" "h \<noteq> 0"
proof -
  from assms(1) have N: "N \<noteq> 0" and h: "h = T / real_of_int N"
    by (auto simp add: py_div_def split: if_splits)
  from assms(2) have h0: "h \<noteq> 0" and tt: "tt = map (\<lambda>k. real k * h) [0..<nat \<lceil>T / h\<rceil>]"
    by (auto simp add: arange_def split: if_splits)
  from h0 h have T: "T \<noteq> 0" by auto
  have "T / h = real_of_int N"
    using T N unfolding h by simp
  then show "length tt = nat N" unfolding tt by simp
  show "0 < N" using N assms(3) by simp
  show "h \<noteq> 0" by (rule h0)
qed

lemma transition_proj_shapes [simp]:
  "nrows (fst (transition lib L h N)) = 2 * N" "ncols (fst (transition lib L h N)) = 2 * N"
  "nrows (fst (snd (transition lib L h N))) = 2" "ncols (fst (snd (transition lib L h N))) = N"
  "nrows (snd (snd (transition lib L h N))) = 2" "ncols (snd (snd (transition lib L h N))) = N"
  by (simp_all add: transition_def Let_def transition_AA_shape transition_A_shape)

lemma arange_length':
  assumes "py_div T (real_of_int N) = Inr h" "arange T h = Inr tt" "\<not> N < 0"
  shows "length tt = nat N" "0 < N" "h \<noteq> 0"
  using arange_length [OF assms(1,2)] assms(3) by simp_all

lemma BI_window_shapes:
  assumes "BI_window lib R_H wd p = Inr wc"
  shows "0 < wc_N wc" "nrows (wc_AA wc) = 2 * wc_N wc" "ncols (wc_AA wc) = 2 * wc_N wc"
    "nrows (wc_a1 wc) = 2" "ncols (wc_a1 wc) = wc_N wc"
    "nrows (wc_a2 wc) = 2" "ncols (wc_a2 wc) = wc_N wc"
    "length (wc_tt wc) = wc_N wc" "nrows (wc_y wc) = min (wc_N wc) (length R_H)"
    "ncols (wc_y wc) = 1" "wc_h wc \<noteq> 0"
proof -
  from assms obtain w N T L
    where tail: "(if N < 0 then Inl ValueError
        else bindE (py_div T (real_of_int N)) (\<lambda>h.
             bindE (arange T h) (\<lambda>tt.
               Inr \<lparr>wc_w = w, wc_N = nat N, wc_h = h,
                    wc_y = column (map (\<lambda>x. 1000000000 * x)
                             (py_take (map (\<lambda>x. x - mean R_H) R_H) N)),
                    wc_tt = tt, wc_AA = fst (transition lib L h (nat N)),
                    wc_a1 = fst (snd (transition lib L h (nat N))),
                    wc_a2 = snd (snd (transition lib L h (nat N)))\<rparr>))) = Inr wc"
    unfolding BI_window_def Let_def split_beta
    by (elim bindE_InrE) (erule that)
  from tail obtain h tt where N0: "0 \<le> N" and h: "py_div T (real_of_int N) = Inr h"
    and tt: "arange T h = Inr tt"
    and wc: "wc = \<lparr>wc_w = w, wc_N = nat N, wc_h = h,
                    wc_y = column (map (\<lambda>x. 1000000000 * x)
                             (py_take (map (\<lambda>x. x - mean R_H) R_H) N)),
                    wc_tt = tt, wc_AA = fst (transition lib L h (nat N)),
                    wc_a1 = fst (snd (transition lib L h (nat N))),
                    wc_a2 = snd (snd (transition lib L h (nat N)))\<rparr>"
    by (cases "N < 0") (auto elim!: bindE_InrE)
  note ar = arange_length [OF h tt N0]
  show "0 < wc_N wc" using ar wc by simp
  show "nrows (wc_AA wc) = 2 * wc_N wc" "ncols (wc_AA wc) = 2 * wc_N wc"
    "nrows (wc_a1 wc) = 2" "ncols (wc_a1 wc) = wc_N wc"
    "nrows (wc_a2 wc) = 2" "ncols (wc_a2 wc) = wc_N wc"
    unfolding wc by simp_all
  show "length (wc_tt wc) = wc_N wc" using ar wc by simp
  show "nrows (wc_y wc) = min (wc_N wc) (length R_H)"
    using N0 unfolding wc by (simp add: py_take_def)
  show "ncols (wc_y wc) = 1" unfolding wc by simp
  show "wc_h wc \<noteq> 0" using ar wc by simp
qed


lemma obs_precision_shape:
  assumes "obs_precision gam N = Inr G"
  shows "nrows G = N" "ncols G = N"
  using assms by (auto simp add: obs_precision_def elim!: bindE_InrE)

lemma prior_diag_length:
  assumes "prior_diag sigi sig n aa = Inr d"
  shows "length d = 2 + nat (n + 1)"
proof -
  from assms obtain ks s2 si2 where ks: "arange_pow n aa = Inr ks"
    and d: "d = [si2, si2] @ map (\<lambda>k. s2 * k) ks"
    unfolding prior_diag_def by (elim bindE_InrE) auto
  from ks have "length ks = nat (n + 1)"
    by (auto simp add: arange_pow_def split: pynum.splits if_splits)
  then show ?thesis unfolding d by simp
qed

lemma lstsq_call_shape:
  assumes "lstsq_call lib A B rcond = Inr X"
  shows "nrows A = nrows B" "nrows X = ncols A" "ncols X = ncols B"
  using assms by (auto simp add: lstsq_call_def split: if_splits elim!: bindE_InrE)

lemma posterior_shape:
  assumes "posterior lib P0 GAI CC y m0 M rcond = Inr (Sig, m_phi)"
  shows "nrows CC = nrows GAI" "ncols GAI = nrows CC" "ncols GAI = nrows y"
    "(if nrows P0 = 1 then ncols CC else nrows P0) = M"
    "nrows Sig = (if ncols P0 = 1 then ncols CC else ncols P0)" "ncols Sig = M"
proof -
  from assms obtain CtG CtGC A CtG' b1 b2 b
    where 1: "matmul (transposeT CC) GAI = Inr CtG" and 2: "matmul CtG CC = Inr CtGC"
      and 3: "broadcast (+) P0 CtGC = Inr A" and 4: "lstsq_call lib A (eye M) rcond = Inr Sig"
      and 5: "matmul (transposeT CC) GAI = Inr CtG'" and 6: "matmul CtG' y = Inr b1"
      and 7: "matmul P0 m0 = Inr b2" and 8: "broadcast (+) b1 b2 = Inr b"
      and 9: "matmul Sig b = Inr m_phi"
    unfolding posterior_def by (elim bindE_InrE) auto
  note m1 = matmul_shape [OF 1] and m2 = matmul_shape [OF 2] and b3 = broadcast_shape [OF 3]
    and l4 = lstsq_call_shape [OF 4] and m5 = matmul_shape [OF 5] and m6 = matmul_shape [OF 6]
  show "nrows CC = nrows GAI" using m1 by simp
  show "ncols GAI = nrows CC" using m1 m2 by simp
  show "ncols GAI = nrows y" using m5 m6 by simp
  show "(if nrows P0 = 1 then ncols CC else nrows P0) = M" using b3 l4 m2 m1 by simp
  show "nrows Sig = (if ncols P0 = 1 then ncols CC else ncols P0)" using l4 b3 m2 by simp
  show "ncols Sig = M" using l4 by simp
qed

lemma mmlenn_rebuild_D:
  assumes "mmlenn_rebuild lib pp w tt AA a1 a2 y n M h m0 sigi aa = Inr rb"
  shows "2 < length pp" "rb_phi rb = pp ! 2" "rb_sig rb = pp ! 0" "rb_gam rb = pp ! 1"
    "\<exists>d. prior_diag sigi (pp ! 0) n aa = Inr d \<and> rb_P0 rb = diag d \<and> 0 \<notin> set d"
    "obs_precision (pp ! 1) (array_size y) = Inr (rb_GAI rb)"
    "B_phin64 (pp ! 2) w tt n = Inr (rb_B rb)"
    "\<exists>BB. design_matrix AA a1 a2 (rb_B rb) h = Inr (BB, rb_CC1 rb, rb_CC rb)"
    "posterior lib (rb_P0 rb) (rb_GAI rb) (rb_CC rb) y m0 M (Some (- 1)) = Inr (rb_Sig rb, rb_m_phi rb)"
proof -
  from assms obtain phi sig gam d C0 GAI B dm sm
    where i2: "getidx pp 2 = Inr phi" and i0: "getidx pp 0 = Inr sig" and i1: "getidx pp 1 = Inr gam"
      and d: "prior_diag sigi sig n aa = Inr d" and C0: "linalg_inv_diag d = Inr C0"
      and G: "obs_precision gam (array_size y) = Inr GAI" and B: "B_phin64 phi w tt n = Inr B"
      and dm: "design_matrix AA a1 a2 B h = Inr dm"
      and po: "posterior lib (diag d) GAI (snd (snd dm)) y m0 M (Some (- 1)) = Inr sm"
      and rb: "rb = \<lparr>rb_phi = phi, rb_sig = sig, rb_gam = gam, rb_P0 = diag d, rb_GAI = GAI,
                     rb_B = B, rb_CC1 = fst (snd dm), rb_CC = snd (snd dm), rb_Sig = fst sm,
                     rb_m_phi = snd sm\<rparr>"
    unfolding mmlenn_rebuild_def Let_def split_beta by (elim bindE_InrE) auto
  from i2 i0 i1 have idx: "2 < length pp" "phi = pp ! 2" "sig = pp ! 0" "gam = pp ! 1"
    by (auto simp add: getidx_def split: if_splits)
  show "2 < length pp" by (rule idx)
  show "rb_phi rb = pp ! 2" "rb_sig rb = pp ! 0" "rb_gam rb = pp ! 1"
    using idx rb by simp_all
  from C0 have "0 \<notin> set d" by (auto simp add: linalg_inv_diag_def split: if_splits)
  then show "\<exists>d. prior_diag sigi (pp ! 0) n aa = Inr d \<and> rb_P0 rb = diag d \<and> 0 \<notin> set d"
    using d idx rb by auto
  show "obs_precision (pp ! 1) (array_size y) = Inr (rb_GAI rb)" using G idx rb by simp
  show "B_phin64 (pp ! 2) w tt n = Inr (rb_B rb)" using B idx rb by simp
  show "\<exists>BB. design_matrix AA a1 a2 (rb_B rb) h = Inr (BB, rb_CC1 rb, rb_CC rb)"
    using dm rb by (cases dm) auto
  show "posterior lib (rb_P0 rb) (rb_GAI rb) (rb_CC rb) y m0 M (Some (- 1)) = Inr (rb_Sig rb, rb_m_phi rb)"
    using po rb by simp
qed

lemma BI_design_D:
  assumes "BI_design lib R_H wd p = Inr ds"
  shows "BI_window lib R_H wd p = Inr (ds_wc ds)"
    "B_phin 1 (wc_w (ds_wc ds)) (wc_tt (ds_wc ds)) (ds_n ds) = Inr (ds_B ds)"
    "design_matrix (wc_AA (ds_wc ds)) (wc_a1 (ds_wc ds)) (wc_a2 (ds_wc ds)) (ds_B ds)
       (wc_h (ds_wc ds)) = Inr (ds_BB ds, ds_CC1 ds, ds_CC ds)"
    "ds_M ds = nat (2 + ds_n ds + 1)"
    "initial_m0 (wc_y (ds_wc ds)) (wc_h (ds_wc ds)) (ds_n ds) = Inr (ds_m0 ds)"
    "\<exists>d. prior_diag 3 (Fin 1) (ds_n ds) (ds_aa ds) = Inr d \<and> ds_P0 ds = diag d \<and> 0 \<notin> set d"
    "obs_precision (Fin (1 / 10)) (wc_N (ds_wc ds)) = Inr (ds_GAI ds)"
    "getitem p ''Bayes.Npoly'' = Inr (PyInt (ds_n ds))"
    "getitem p ''Bayes.aa'' = Inr (ds_aa ds)"
proof -
  from assms obtain wc npoly aa
    where wc: "BI_window lib R_H wd p = Inr wc" and np: "getitem p ''Bayes.Npoly'' = Inr npoly"
      and aa: "getitem p ''Bayes.aa'' = Inr aa"
      and tail: "(case npoly of
       PyFloat x \<Rightarrow> if nrows (wc_y wc) < 2 then Inl IndexError else Inl TypeError
     | PyInt n \<Rightarrow>
         bindE (prior_diag 3 (Fin 1) n aa) (\<lambda>d.
         bindE (linalg_inv_diag d) (\<lambda>C0.
         bindE (obs_precision (Fin (1 / 10)) (wc_N wc)) (\<lambda>GAI.
         bindE (initial_m0 (wc_y wc) (wc_h wc) n) (\<lambda>m0.
         bindE (B_phin 1 (wc_w wc) (wc_tt wc) n) (\<lambda>B.
         bindE (design_matrix (wc_AA wc) (wc_a1 wc) (wc_a2 wc) B (wc_h wc)) (\<lambda>dm.
         Inr \<lparr>ds_wc = wc, ds_n = n, ds_aa = aa, ds_M = nat (2 + n + 1), ds_P0 = diag d,
              ds_C0 = C0, ds_GAI = GAI, ds_m0 = m0, ds_B = B, ds_BB = fst dm, ds_CC1 = fst (snd dm),
              ds_CC = snd (snd dm)\<rparr>))))))) = Inr ds"
    unfolding BI_design_def split_beta by (elim bindE_InrE) (rule that; assumption)
  from tail obtain n where n: "npoly = PyInt n"
    by (cases npoly) (auto split: if_splits)
  from tail obtain d C0 GAI m0 B dm
    where d: "prior_diag 3 (Fin 1) n aa = Inr d" and C0: "linalg_inv_diag d = Inr C0"
      and G: "obs_precision (Fin (1 / 10)) (wc_N wc) = Inr GAI"
      and m0: "initial_m0 (wc_y wc) (wc_h wc) n = Inr m0"
      and B: "B_phin 1 (wc_w wc) (wc_tt wc) n = Inr B"
      and dm: "design_matrix (wc_AA wc) (wc_a1 wc) (wc_a2 wc) B (wc_h wc) = Inr dm"
      and ds: "ds = \<lparr>ds_wc = wc, ds_n = n, ds_aa = aa, ds_M = nat (2 + n + 1), ds_P0 = diag d,
              ds_C0 = C0, ds_GAI = GAI, ds_m0 = m0, ds_B = B, ds_BB = fst dm, ds_CC1 = fst (snd dm),
              ds_CC = snd (snd dm)\<rparr>"
    unfolding n pynum.case by (elim bindE_InrE) auto
  show "BI_window lib R_H wd p = Inr (ds_wc ds)" using wc ds by simp
  show "B_phin 1 (wc_w (ds_wc ds)) (wc_tt (ds_wc ds)) (ds_n ds) = Inr (ds_B ds)" using B ds by simp
  show "design_matrix (wc_AA (ds_wc ds)) (wc_a1 (ds_wc ds)) (wc_a2 (ds_wc ds)) (ds_B ds)
       (wc_h (ds_wc ds)) = Inr (ds_BB ds, ds_CC1 ds, ds_CC ds)" using dm ds by simp
  show "ds_M ds = nat (2 + ds_n ds + 1)" using ds by simp
  show "initial_m0 (wc_y (ds_wc ds)) (wc_h (ds_wc ds)) (ds_n ds) = Inr (ds_m0 ds)" using m0 ds by simp
  from C0 have "0 \<notin> set d" by (auto simp add: linalg_inv_diag_def split: if_splits)
  then show "\<exists>d. prior_diag 3 (Fin 1) (ds_n ds) (ds_aa ds) = Inr d \<and> ds_P0 ds = diag d \<and> 0 \<notin> set d"
    using d ds by simp
  show "obs_precision (Fin (1 / 10)) (wc_N (ds_wc ds)) = Inr (ds_GAI ds)" using G ds by simp
  show "getitem p ''Bayes.Npoly'' = Inr (PyInt (ds_n ds))" using np n ds by simp
  show "getitem p ''Bayes.aa'' = Inr (ds_aa ds)" using aa ds by simp
qed

lemma BI_design_shapes:
  assumes "BI_design lib R_H wd p = Inr ds"
  shows "nrows (ds_CC1 ds) = 2 * wc_N (ds_wc ds)" "nrows (ds_CC ds) = wc_N (ds_wc ds)"
    "int (ncols (ds_CC ds)) = 2 + ds_n ds + 1" "ncols (ds_CC ds) = ds_M ds"
    "ncols (ds_CC1 ds) = ds_M ds" "0 \<le> ds_n ds + 1"
proof -
  note D = BI_design_D [OF assms]
  note W = BI_window_shapes [OF D(1)] and B = B_phin_shape [OF D(2)]
    and M = design_matrix_shape [OF D(3)]
  show "nrows (ds_CC1 ds) = 2 * wc_N (ds_wc ds)" using M(3) W by simp
  then show "nrows (ds_CC ds) = wc_N (ds_wc ds)" using M(6) by simp
  show "int (ncols (ds_CC ds)) = 2 + ds_n ds + 1" using M(7) B by simp
  then show "ncols (ds_CC ds) = ds_M ds" using D(4) by simp
  then show "ncols (ds_CC1 ds) = ds_M ds" using M by simp
  show "0 \<le> ds_n ds + 1" using B by simp
qed

section \<open>When the stages return\<close>

lemma arange_pow_nonneg_int:
  assumes "0 \<le> a"
  shows "\<exists>ks. arange_pow n (PyInt a) = Inr ks \<and> 0 \<notin> set ks \<and> length ks = nat (n + 1)"
  using assms by (auto simp add: arange_pow_def)

lemma prior_diag_returns:
  assumes "sigi \<noteq> 0" "s \<noteq> 0" "0 \<le> a"
  shows "\<exists>d. prior_diag sigi (Fin s) n (PyInt a) = Inr d \<and> 0 \<notin> set d \<and> length d = 2 + nat (n + 1)"
proof -
  from arange_pow_nonneg_int [OF assms(3), of n] obtain ks
    where ks: "arange_pow n (PyInt a) = Inr ks" "0 \<notin> set ks" "length ks = nat (n + 1)" by blast
  show ?thesis
    using assms(1,2) ks by (auto simp add: prior_diag_def py_div_def)
qed

lemma obs_precision_returns:
  assumes "g \<noteq> 0"
  shows "\<exists>G. obs_precision (Fin g) N = Inr G \<and> nrows G = N \<and> ncols G = N"
  using assms by (simp add: obs_precision_def)

lemma B_phin_returns:
  assumes "0 \<le> n + 1"
  shows "\<exists>B. B_phin phi w tt n = Inr B \<and> nrows B = 2 * length tt \<and> ncols B = nat (n + 1)"
proof -
  from assms obtain B where B: "B_phin phi w tt n = Inr B"
    by (auto simp add: B_phin_def Let_def)
  from B_phin_shape [OF B] B show ?thesis by auto
qed

lemma design_matrix_returns:
  assumes "ncols AA = nrows B" "nrows a1 * ncols a1 = nrows AA" "nrows a2 * ncols a2 = nrows AA"
  shows "\<exists>BB CC1 CC. design_matrix AA a1 a2 B h = Inr (BB, CC1, CC)"
  using assms by (simp add: design_matrix_def matmul_def concatenate3_def Let_def)

lemma posterior_returns:
  assumes "nrows P0 = M" "ncols P0 = M" "ncols CC = M" "nrows GAI = nrows CC"
    "ncols GAI = nrows CC" "nrows y = nrows CC" "nrows m0 = M" "ncols m0 = ncols y"
    and lib: "\<And>A B. \<exists>X. lstsq lib A B rcond = Inr X"
  shows "\<exists>Sig m_phi. posterior lib P0 GAI CC y m0 M rcond = Inr (Sig, m_phi)
           \<and> nrows Sig = M \<and> ncols Sig = M \<and> nrows m_phi = M \<and> ncols m_phi = ncols y"
proof -
  obtain CtG where 1: "matmul (transposeT CC) GAI = Inr CtG"
    using assms(4) by (auto simp add: matmul_def)
  note s1 = matmul_shape [OF 1]
  obtain CtGC where 2: "matmul CtG CC = Inr CtGC"
    using s1 assms(5) by (auto simp add: matmul_def)
  note s2 = matmul_shape [OF 2]
  obtain A where 3: "broadcast (+) P0 CtGC = Inr A"
    using s1 s2 assms(1,2,3) by (auto simp add: broadcast_def)
  note s3 = broadcast_shape [OF 3]
  from lib [of A "eye M"] obtain X where X: "lstsq lib A (eye M) rcond = Inr X" by blast
  have A: "nrows A = M" "ncols A = M" using s3 s2 s1 assms(1,2,3) by auto
  let ?Sig = "X\<lparr>nrows := M, ncols := M\<rparr>"
  have 4: "lstsq_call lib A (eye M) rcond = Inr ?Sig"
    using X A by (simp add: lstsq_call_def)
  obtain b1 where 6: "matmul CtG y = Inr b1"
    using s1 assms(5,6) by (auto simp add: matmul_def)
  note s6 = matmul_shape [OF 6]
  obtain b2 where 7: "matmul P0 m0 = Inr b2"
    using assms(2,7) by (auto simp add: matmul_def)
  note s7 = matmul_shape [OF 7]
  obtain b where 8: "broadcast (+) b1 b2 = Inr b"
    using s6 s7 s1 assms by (auto simp add: broadcast_def)
  note s8 = broadcast_shape [OF 8]
  have b: "nrows b = M" "ncols b = ncols y"
    using s8 s6 s7 s1 assms by auto
  obtain m_phi where 9: "matmul ?Sig b = Inr m_phi"
    using b by (auto simp add: matmul_def)
  note s9 = matmul_shape [OF 9]
  have "posterior lib P0 GAI CC y m0 M rcond = Inr (?Sig, m_phi)"
    by (simp add: posterior_def 1 2 3 4 6 7 8 9)
  then show ?thesis using s9 b by auto
qed

lemma BI_window_returns:
  assumes "getitem p ''Bayes.fac'' = Inr fac" "getitem p ''CL.Q'' = Inr Q"
    "getitem p ''CL.f0'' = Inr f0" "getitem p ''Sim.Tmax'' = Inr Tmax"
    "to_real fac \<noteq> 0" "to_real Q \<noteq> 0" "to_real f0 \<noteq> 0" "to_real Tmax \<noteq> 0"
    "0 < py_int (real (length R_H) / to_real fac)"
  shows "\<exists>wc. BI_window lib R_H wd p = Inr wc
           \<and> wc_N wc = nat (py_int (real (length R_H) / to_real fac))"
  using assms
  by (simp add: BI_window_def py_div_def arange_def Let_def split_beta)

lemma initial_m0_returns:
  assumes "2 \<le> nrows y" "0 \<le> n + 1"
  shows "\<exists>m0. initial_m0 y h n = Inr m0 \<and> nrows m0 = 2 + nat (n + 1) \<and> ncols m0 = 1"
  using assms by (simp add: initial_m0_def Let_def)

lemma initial_m0_shape:
  assumes "initial_m0 y h n = Inr m0"
  shows "nrows m0 = 2 + nat (n + 1)" "ncols m0 = 1" "2 \<le> nrows y"
  using assms by (auto simp add: initial_m0_def Let_def split: if_splits)

lemma BI_design_returns:
  assumes w: "BI_window lib R_H wd p = Inr wc"
    and "getitem p ''Bayes.Npoly'' = Inr (PyInt n)" "getitem p ''Bayes.aa'' = Inr (PyInt a)"
    and "0 \<le> n + 1" "0 \<le> a" "2 \<le> wc_N wc" "2 \<le> length R_H"
  shows "\<exists>ds. BI_design lib R_H wd p = Inr ds \<and> ds_wc ds = wc"
proof -
  note W = BI_window_shapes [OF w]
  from prior_diag_returns [of 3 1 a n] assms(5) obtain d
    where d: "prior_diag 3 (Fin 1) n (PyInt a) = Inr d" "0 \<notin> set d" by auto
  then have C0: "linalg_inv_diag d = Inr (map inverse d)"
    by (simp add: linalg_inv_diag_def)
  from obs_precision_returns [of "1 / 10" "wc_N wc"] obtain G
    where G: "obs_precision (Fin (1 / 10)) (wc_N wc) = Inr G" by auto
  have "2 \<le> nrows (wc_y wc)" using W(9) assms(6,7) by simp
  from initial_m0_returns [OF this assms(4), of "wc_h wc"] obtain m0
    where m0: "initial_m0 (wc_y wc) (wc_h wc) n = Inr m0" by blast
  from B_phin_returns [OF assms(4), of 1 "wc_w wc" "wc_tt wc"] obtain B
    where B: "B_phin 1 (wc_w wc) (wc_tt wc) n = Inr B" "nrows B = 2 * length (wc_tt wc)" by blast
  have "\<exists>BB CC1 CC. design_matrix (wc_AA wc) (wc_a1 wc) (wc_a2 wc) B (wc_h wc) = Inr (BB, CC1, CC)"
    by (rule design_matrix_returns) (simp_all add: W B)
  then obtain BB CC1 CC
    where dm: "design_matrix (wc_AA wc) (wc_a1 wc) (wc_a2 wc) B (wc_h wc) = Inr (BB, CC1, CC)"
    by blast
  show ?thesis
    by (simp add: BI_design_def w assms(2,3) d C0 G m0 B dm)
qed

lemma prior_diag_rescale:
  assumes "prior_diag sigi (Fin 1) n aa = Inr d" "0 \<notin> set d" "s \<noteq> 0"
  shows "\<exists>d'. prior_diag sigi (Fin s) n aa = Inr d' \<and> 0 \<notin> set d' \<and> length d' = length d"
proof -
  from assms(1) obtain q si2 q1 s2 ks where q: "py_div 1 sigi = Inr q"
    and si2: "py_div q sigi = Inr si2"
    and q1: "np_divide (Fin 1) (Fin 1) = Inr q1" and s2: "np_divide (Fin q1) (Fin 1) = Inr s2"
    and ks: "arange_pow n aa = Inr ks" and d0: "Inr ([si2, si2] @ map (\<lambda>k. s2 * k) ks) = (Inr d :: error + real list)"
    unfolding prior_diag_def by (elim bindE_InrE) (rule that; assumption)
  from q1 s2 have "s2 = 1" by auto
  with d0 have d: "d = [si2, si2] @ ks" by auto
  from assms(2) d have nz: "si2 \<noteq> 0" "0 \<notin> set ks" by auto
  have "prior_diag sigi (Fin s) n aa = Inr ([si2, si2] @ map (\<lambda>k. 1 / s / s * k) ks)"
    using assms(3) by (simp add: prior_diag_def q si2 ks)
  moreover have "0 \<notin> set ([si2, si2] @ map (\<lambda>k. 1 / s / s * k) ks)"
    using nz assms(3) by auto
  ultimately show ?thesis unfolding d by auto
qed


lemma final_posterior_returns:
  assumes w: "BI_window lib R_H wd p = Inr wc"
    and d: "prior_diag sigi (Fin 1) n aa = Inr d" "0 \<notin> set d"
    and n: "0 \<le> n + 1" and M: "M = 2 + nat (n + 1)"
    and m0: "nrows m0 = M" "ncols m0 = 1"
    and N: "wc_N wc \<le> length R_H"
    and pp: "pp1 = [Fin s, Fin g, Fin ph]" "s \<noteq> 0" "g \<noteq> 0"
    and lib: "\<And>A B. \<exists>X. lstsq lib A B (Some (- 1)) = Inr X"
  shows "\<exists>bi. final_posterior lib pp1 wc n M m0 sigi aa = Inr bi \<and> bi_pp1 bi = pp1"
proof -
  note W = BI_window_shapes [OF w]
  have idx: "getidx pp1 2 = Inr (Fin ph)" "getidx pp1 0 = Inr (Fin s)" "getidx pp1 1 = Inr (Fin g)"
    "getidx pp1 (Suc 0) = Inr (Fin g)"
    unfolding pp by (simp_all add: getidx_def)
  from B_phin_returns [OF n, of ph "wc_w wc" "wc_tt wc"] obtain B
    where B: "B_phin ph (wc_w wc) (wc_tt wc) n = Inr B" "nrows B = 2 * length (wc_tt wc)"
      "ncols B = nat (n + 1)" by blast
  then have B64: "B_phin64 (Fin ph) (wc_w wc) (wc_tt wc) n = Inr B"
    by (simp add: B_phin64_def)
  have "\<exists>BB CC1 CC. design_matrix (wc_AA wc) (wc_a1 wc) (wc_a2 wc) B (wc_h wc) = Inr (BB, CC1, CC)"
    by (rule design_matrix_returns) (simp_all add: W B)
  then obtain BB CC1 CC
    where dm: "design_matrix (wc_AA wc) (wc_a1 wc) (wc_a2 wc) B (wc_h wc) = Inr (BB, CC1, CC)"
    by blast
  note DM = design_matrix_shape [OF dm]
  from prior_diag_rescale [OF d pp(2)] obtain d'
    where d': "prior_diag sigi (Fin s) n aa = Inr d'" "0 \<notin> set d'" "length d' = length d" by blast
  have C0: "linalg_inv_diag d' = Inr (map inverse d')"
    using d' by (simp add: linalg_inv_diag_def)
  have len: "length d' = M"
    using prior_diag_length [OF d'(1)] M by simp
  from obs_precision_returns [OF pp(3), of "wc_N wc"] obtain G
    where G: "obs_precision (Fin g) (wc_N wc) = Inr G" "nrows G = wc_N wc" "ncols G = wc_N wc"
    by blast
  have CC: "nrows CC = wc_N wc" "ncols CC = M"
    using DM W B M by simp_all
  have "\<exists>Sig m_phi. posterior lib (diag d') G CC (wc_y wc) m0 M (Some (- 1)) = Inr (Sig, m_phi)
           \<and> nrows Sig = M \<and> ncols Sig = M \<and> nrows m_phi = M \<and> ncols m_phi = ncols (wc_y wc)"
    by (rule posterior_returns) (use len CC G W N m0 lib in simp_all)
  then obtain Sig m_phi
    where po: "posterior lib (diag d') G CC (wc_y wc) m0 M (Some (- 1)) = Inr (Sig, m_phi)"
    by blast
  show ?thesis
    by (simp add: final_posterior_def idx B64 dm d' C0 G po)
qed


lemma mmlenn_rebuild_returns:
  assumes w: "BI_window lib R_H wd p = Inr wc"
    and d: "prior_diag sigi (Fin 1) n aa = Inr d" "0 \<notin> set d"
    and n: "0 \<le> n + 1" and M: "M = 2 + nat (n + 1)"
    and m0: "nrows m0 = M" "ncols m0 = 1"
    and N: "wc_N wc \<le> length R_H"
    and pp: "pp = [Fin s, Fin g, Fin ph]" "s \<noteq> 0" "g \<noteq> 0"
    and lib: "\<And>A B. \<exists>X. lstsq lib A B (Some (- 1)) = Inr X"
  shows "\<exists>rb. mmlenn_rebuild lib pp (wc_w wc) (wc_tt wc) (wc_AA wc) (wc_a1 wc) (wc_a2 wc) (wc_y wc)
                 n M (wc_h wc) m0 sigi aa = Inr rb"
proof -
  note W = BI_window_shapes [OF w]
  have idx: "getidx pp 2 = Inr (Fin ph)" "getidx pp 0 = Inr (Fin s)" "getidx pp 1 = Inr (Fin g)"
    "getidx pp (Suc 0) = Inr (Fin g)"
    unfolding pp by (simp_all add: getidx_def)
  have size: "array_size (wc_y wc) = wc_N wc"
    using W N by (simp add: array_size_def)
  from B_phin_returns [OF n, of ph "wc_w wc" "wc_tt wc"] obtain B
    where B: "B_phin ph (wc_w wc) (wc_tt wc) n = Inr B" "nrows B = 2 * length (wc_tt wc)"
      "ncols B = nat (n + 1)" by blast
  then have B64: "B_phin64 (Fin ph) (wc_w wc) (wc_tt wc) n = Inr B"
    by (simp add: B_phin64_def)
  have "\<exists>BB CC1 CC. design_matrix (wc_AA wc) (wc_a1 wc) (wc_a2 wc) B (wc_h wc) = Inr (BB, CC1, CC)"
    by (rule design_matrix_returns) (simp_all add: W B)
  then obtain BB CC1 CC
    where dm: "design_matrix (wc_AA wc) (wc_a1 wc) (wc_a2 wc) B (wc_h wc) = Inr (BB, CC1, CC)"
    by blast
  note DM = design_matrix_shape [OF dm]
  from prior_diag_rescale [OF d pp(2)] obtain d'
    where d': "prior_diag sigi (Fin s) n aa = Inr d'" "0 \<notin> set d'" "length d' = length d" by blast
  have C0: "linalg_inv_diag d' = Inr (map inverse d')"
    using d' by (simp add: linalg_inv_diag_def)
  have len: "length d' = M"
    using prior_diag_length [OF d'(1)] M by simp
  from obs_precision_returns [OF pp(3), of "wc_N wc"] obtain G
    where G: "obs_precision (Fin g) (wc_N wc) = Inr G" "nrows G = wc_N wc" "ncols G = wc_N wc"
    by blast
  have CC: "nrows CC = wc_N wc" "ncols CC = M"
    using DM W B M by simp_all
  have "\<exists>Sig m_phi. posterior lib (diag d') G CC (wc_y wc) m0 M (Some (- 1)) = Inr (Sig, m_phi)
           \<and> nrows Sig = M \<and> ncols Sig = M \<and> nrows m_phi = M \<and> ncols m_phi = ncols (wc_y wc)"
    by (rule posterior_returns) (use len CC G W N m0 lib in simp_all)
  then obtain Sig m_phi
    where po: "posterior lib (diag d') G CC (wc_y wc) m0 M (Some (- 1)) = Inr (Sig, m_phi)"
    by blast
  show ?thesis
    by (simp add: mmlenn_rebuild_def idx size B64 dm d' C0 G po)
qed

lemma BayesianInference_returns:
  assumes ds: "BI_design lib R_H wd p = Inr ds"
    and N: "wc_N (ds_wc ds) \<le> length R_H"
    and lib: "\<And>A B rcond. \<exists>X. lstsq lib A B rcond = Inr X"
    and opt: "optimize lib (objective lib ds) = Inr ([Fin s, Fin g, Fin ph], fv)" "s \<noteq> 0" "g \<noteq> 0"
  shows "\<exists>bi. BayesianInference lib R_H wd n0 p = Inr bi \<and> bi_pp1 bi = [Fin s, Fin g, Fin ph]"
proof -
  let ?wc = "ds_wc ds"
  note D = BI_design_D [OF ds] and S = BI_design_shapes [OF ds]
  note W = BI_window_shapes [OF D(1)] and I = initial_m0_shape [OF D(5)]
  from D(6) obtain d where d: "prior_diag 3 (Fin 1) (ds_n ds) (ds_aa ds) = Inr d"
    "ds_P0 ds = diag d" "0 \<notin> set d" by blast
  have M: "ds_M ds = 2 + nat (ds_n ds + 1)" using D(4) S(6) by simp
  have len: "length d = ds_M ds" using prior_diag_length [OF d(1)] M by simp
  note G = obs_precision_shape [OF D(7)]
  have "\<exists>Sig m_phi. posterior lib (ds_P0 ds) (ds_GAI ds) (ds_CC ds) (wc_y ?wc) (ds_m0 ds) (ds_M ds) None
            = Inr (Sig, m_phi)
           \<and> nrows Sig = ds_M ds \<and> ncols Sig = ds_M ds \<and> nrows m_phi = ds_M ds
           \<and> ncols m_phi = ncols (wc_y ?wc)"
    by (rule posterior_returns) (use d(2) len S G W N I M lib in simp_all)
  then obtain Sig m_phi
    where po: "posterior lib (ds_P0 ds) (ds_GAI ds) (ds_CC ds) (wc_y ?wc) (ds_m0 ds) (ds_M ds) None
                 = Inr (Sig, m_phi)" by blast
  have "\<exists>bi. final_posterior lib [Fin s, Fin g, Fin ph] ?wc (ds_n ds) (ds_M ds) (ds_m0 ds) 3 (ds_aa ds)
               = Inr bi \<and> bi_pp1 bi = [Fin s, Fin g, Fin ph]"
    by (rule final_posterior_returns [OF D(1) d(1) d(3) S(6) M _ _ N refl opt(2,3)])
       (use I M lib in simp_all)
  then show ?thesis
    by (simp add: BayesianInference_def ds po opt(1))
qed

section \<open>The design matrix and the optimizer at concrete inputs\<close>

lemma unit_parameters_items:
  "getitem unit_parameters ''Bayes.fac'' = Inr (PyInt 1)"
  "getitem unit_parameters ''CL.Q'' = Inr (PyInt 115)"
  "getitem unit_parameters ''CL.f0'' = Inr (PyFloat 58000)"
  "getitem unit_parameters ''Sim.Tmax'' = Inr (PyFloat (4096 / 10 ^ 6 * 2))"
  "getitem unit_parameters ''Bayes.Npoly'' = Inr (PyInt 2)"
  "getitem unit_parameters ''Bayes.aa'' = Inr (PyInt 2)"
  by (simp_all add: getitem_def unit_parameters_def get_default_parameters_def)

lemma half_parameters_items:
  "getitem half_parameters ''Bayes.fac'' = Inr (PyFloat (1 / 2))"
  "getitem half_parameters ''CL.Q'' = Inr (PyInt 115)"
  "getitem half_parameters ''CL.f0'' = Inr (PyFloat 58000)"
  "getitem half_parameters ''Sim.Tmax'' = Inr (PyFloat (4096 / 10 ^ 6 * 2))"
  "getitem half_parameters ''Bayes.Npoly'' = Inr (PyInt 2)"
  "getitem half_parameters ''Bayes.aa'' = Inr (PyInt 2)"
  by (simp_all add: getitem_def half_parameters_def get_default_parameters_def)

lemma unit_window:
  "\<exists>wc. BI_window lib [0, 1] 1 unit_parameters = Inr wc \<and> wc_N wc = 2"
  using BI_window_returns [OF unit_parameters_items(1-4), of "[0, 1]" lib 1]
  by (simp add: py_int_def)

lemma half_window:
  "\<exists>wc. BI_window lib [1, 2, 3, 4] 1 half_parameters = Inr wc \<and> wc_N wc = 8"
  using BI_window_returns [OF half_parameters_items(1-4), of "[1, 2, 3, 4]" lib 1]
  by (simp add: py_int_def)

lemma unit_design:
  "\<exists>ds. BI_design lib [0, 1] 1 unit_parameters = Inr ds \<and> wc_N (ds_wc ds) = 2"
proof -
  from unit_window obtain wc where wc: "BI_window lib [0, 1] 1 unit_parameters = Inr wc" "wc_N wc = 2"
    by blast
  from BI_design_returns [OF wc(1) unit_parameters_items(5,6)] wc(2) show ?thesis by auto
qed

lemma half_design:
  "\<exists>ds. BI_design lib [1, 2, 3, 4] 1 half_parameters = Inr ds \<and> wc_N (ds_wc ds) = 8"
proof -
  from half_window obtain wc where wc: "BI_window lib [1, 2, 3, 4] 1 half_parameters = Inr wc" "wc_N wc = 8"
    by blast
  from BI_design_returns [OF wc(1) half_parameters_items(5,6)] wc(2) show ?thesis by auto
qed


lemma small_lib_lstsq: "\<exists>X. lstsq small_lib A B rcond = Inr X"
  by (simp add: small_lib_def)

lemma stuck_lib_lstsq: "\<exists>X. lstsq stuck_lib A B rcond = Inr X"
  by (simp add: stuck_lib_def small_lib_def)

lemma stuck_lib_optimize: "optimize stuck_lib f = Inr ([Fin 1, Fin 1, Fin 1], PInf)"
  by (simp add: optimize_results all_minimizations_def stuck_lib_def small_lib_def draw_pp0_def
        eval_nat_numeral keep_best_def)

text \<open>
  C10. In \<open>BayesianInference\<close> the intermediate \<open>CC1\<close> has \<open>2N\<close> rows, and \<open>CC\<close> has
  \<open>N\<close> rows and \<open>M = 2+n+1\<close> columns, where \<open>N = int(R_H.size/fac)\<close>; \<open>N\<close> is the
  length of \<open>y\<close> when \<open>R_H\<close> has at least \<open>N\<close> samples. In every evaluation of
  \<open>_mmlenn\<close> on the window that gets past the posterior, \<open>CC1\<close> has \<open>2N\<close> rows and
  \<open>CC\<close> has \<open>N\<close> rows and \<open>M\<close> columns, for the length \<open>N\<close> of \<open>y\<close>.
\<close>

theorem design_matrix_rows:
  assumes "BI_design lib R_H wd p = Inr ds"
  shows "nrows (ds_CC1 ds) = 2 * wc_N (ds_wc ds)
       \<and> nrows (ds_CC ds) = wc_N (ds_wc ds)
       \<and> int (ncols (ds_CC ds)) = 2 + ds_n ds + 1
       \<and> (wc_N (ds_wc ds) \<le> length R_H \<longrightarrow> nrows (wc_y (ds_wc ds)) = wc_N (ds_wc ds))
       \<and> (\<forall>pp rb.
            mmlenn_rebuild lib pp (wc_w (ds_wc ds)) (wc_tt (ds_wc ds)) (wc_AA (ds_wc ds))
              (wc_a1 (ds_wc ds)) (wc_a2 (ds_wc ds)) (wc_y (ds_wc ds)) (ds_n ds) (ds_M ds)
              (wc_h (ds_wc ds)) (ds_m0 ds) 3 (ds_aa ds) = Inr rb
            \<longrightarrow> nrows (rb_CC1 rb) = 2 * array_size (wc_y (ds_wc ds))
              \<and> nrows (rb_CC rb) = array_size (wc_y (ds_wc ds))
              \<and> int (ncols (rb_CC rb)) = 2 + ds_n ds + 1)"
proof -
  let ?wc = "ds_wc ds"
  note D = BI_design_D [OF assms] and S = BI_design_shapes [OF assms]
  note W = BI_window_shapes [OF D(1)]
  have y: "nrows (wc_y ?wc) = wc_N ?wc" if "wc_N ?wc \<le> length R_H"
    using W(9) that by simp
  have inner: "nrows (rb_CC1 rb) = 2 * array_size (wc_y ?wc)
              \<and> nrows (rb_CC rb) = array_size (wc_y ?wc)
              \<and> int (ncols (rb_CC rb)) = 2 + ds_n ds + 1"
    if rb: "mmlenn_rebuild lib pp (wc_w ?wc) (wc_tt ?wc) (wc_AA ?wc) (wc_a1 ?wc) (wc_a2 ?wc)
              (wc_y ?wc) (ds_n ds) (ds_M ds) (wc_h ?wc) (ds_m0 ds) 3 (ds_aa ds) = Inr rb"
    for pp rb
  proof -
    note R = mmlenn_rebuild_D [OF rb]
    from R(8) obtain BB where dm: "design_matrix (wc_AA ?wc) (wc_a1 ?wc) (wc_a2 ?wc) (rb_B rb) (wc_h ?wc)
                                     = Inr (BB, rb_CC1 rb, rb_CC rb)" by blast
    note M = design_matrix_shape [OF dm] and B = B_phin64_shape [OF R(7)]
      and G = obs_precision_shape [OF R(6)] and P = posterior_shape [OF R(9)]
    have r1: "nrows (rb_CC1 rb) = 2 * wc_N ?wc" using M(3) W by simp
    then have r: "nrows (rb_CC rb) = wc_N ?wc" using M(6) by simp
    have "nrows (rb_CC rb) = array_size (wc_y ?wc)" using P(1) G by simp
    with r r1 show ?thesis using M(7) B by simp
  qed
  show ?thesis
    using S y inner by blast
qed

theorem design_matrix_rows_witness:
  "\<exists>ds rb. BI_design small_lib [0, 1] 1 unit_parameters = Inr ds
      \<and> wc_N (ds_wc ds) \<le> length [0, 1 :: real]
      \<and> mmlenn_rebuild small_lib [Fin 1, Fin 1, Fin 1] (wc_w (ds_wc ds)) (wc_tt (ds_wc ds))
            (wc_AA (ds_wc ds)) (wc_a1 (ds_wc ds)) (wc_a2 (ds_wc ds)) (wc_y (ds_wc ds)) (ds_n ds)
            (ds_M ds) (wc_h (ds_wc ds)) (ds_m0 ds) 3 (ds_aa ds) = Inr rb
      \<and> nrows (ds_CC1 ds) = 2 * wc_N (ds_wc ds) \<and> nrows (ds_CC ds) = wc_N (ds_wc ds)
      \<and> nrows (wc_y (ds_wc ds)) = wc_N (ds_wc ds)
      \<and> nrows (rb_CC1 rb) = 2 * array_size (wc_y (ds_wc ds))
      \<and> nrows (rb_CC rb) = array_size (wc_y (ds_wc ds))"
proof -
  from unit_design obtain ds where ds: "BI_design small_lib [0, 1] 1 unit_parameters = Inr ds"
    "wc_N (ds_wc ds) = 2" by blast
  note D = BI_design_D [OF ds(1)] and S = BI_design_shapes [OF ds(1)]
  note I = initial_m0_shape [OF D(5)]
  from D(6) obtain d where d: "prior_diag 3 (Fin 1) (ds_n ds) (ds_aa ds) = Inr d" "0 \<notin> set d"
    by blast
  have M: "ds_M ds = 2 + nat (ds_n ds + 1)" using D(4) S(6) by simp
  have N: "wc_N (ds_wc ds) \<le> length [0, 1 :: real]" using ds(2) by simp
  have "\<exists>rb. mmlenn_rebuild small_lib [Fin 1, Fin 1, Fin 1] (wc_w (ds_wc ds)) (wc_tt (ds_wc ds))
            (wc_AA (ds_wc ds)) (wc_a1 (ds_wc ds)) (wc_a2 (ds_wc ds)) (wc_y (ds_wc ds)) (ds_n ds)
            (ds_M ds) (wc_h (ds_wc ds)) (ds_m0 ds) 3 (ds_aa ds) = Inr rb"
    by (rule mmlenn_rebuild_returns [OF D(1) d S(6) M _ _ N refl])
       (use I M small_lib_lstsq in simp_all)
  then obtain rb where rb: "mmlenn_rebuild small_lib [Fin 1, Fin 1, Fin 1] (wc_w (ds_wc ds))
            (wc_tt (ds_wc ds)) (wc_AA (ds_wc ds)) (wc_a1 (ds_wc ds)) (wc_a2 (ds_wc ds))
            (wc_y (ds_wc ds)) (ds_n ds) (ds_M ds) (wc_h (ds_wc ds)) (ds_m0 ds) 3 (ds_aa ds) = Inr rb"
    by blast
  show ?thesis
    using ds(1) N rb design_matrix_rows [OF ds(1)] by blast
qed

theorem design_rows_counterexample:
  "map_sum id design_rows (BI_design small_lib [1, 2, 3, 4] 1 half_parameters) = Inr (16, 8, 5, 4)"
proof -
  from half_design obtain ds where ds: "BI_design small_lib [1, 2, 3, 4] 1 half_parameters = Inr ds"
    "wc_N (ds_wc ds) = 8" by blast
  note D = BI_design_D [OF ds(1)] and S = BI_design_shapes [OF ds(1)]
  note W = BI_window_shapes [OF D(1)]
  from D(8) have n: "ds_n ds = 2" by (simp add: half_parameters_items)
  have "design_rows ds = (16, 8, 5, 4)"
    using S W(9) ds(2) n by (simp add: design_rows_def)
  then show ?thesis by (simp add: ds(1))
qed

text \<open>
  C7. If every minimization returns the value \<open>+inf\<close>, the optimizer returns the point of
  the seeded minimization with the value \<open>+inf\<close>, as it returns any other result.
\<close>

theorem optimize_all_infeasible:
  assumes "all_minimizations lib f = Inr rs" and "\<forall>r\<in>set rs. res_fun r = PInf"
  shows "optimize lib f = Inr (res_x (hd rs), PInf)"
proof -
  have keep: "foldl keep_best (x, PInf) rest = (x, PInf)" if "\<forall>r\<in>set rest. res_fun r = PInf"
    for x rest
    using that by (induction rest) (simp_all add: keep_best_def)
  obtain pp0 s1 where d: "draw_pp0 lib (random_seed lib 1) = (pp0, s1)"
    by (cases "draw_pp0 lib (random_seed lib 1)")
  from assms(1) obtain r0 rest where rs: "rs = r0 # rest"
    by (auto simp add: all_minimizations_def d bindE_eq_Inr simp del: One_nat_def)
  show ?thesis
    using assms(2) keep [of rest "res_x r0"] by (simp add: optimize_results assms(1) rs)
qed

theorem optimize_all_infeasible_witness:
  "all_minimizations stuck_lib (\<lambda>pp. Inr PInf)
     = Inr (replicate 11 \<lparr>res_x = [Fin 1, Fin 1, Fin 1], res_fun = PInf\<rparr>)
   \<and> map res_fun (replicate 11 \<lparr>res_x = [Fin 1, Fin 1, Fin 1], res_fun = PInf\<rparr>) = replicate 11 PInf
   \<and> optimize stuck_lib (\<lambda>pp. Inr PInf)
       = Inr (res_x (hd (replicate 11 \<lparr>res_x = [Fin 1, Fin 1, Fin 1], res_fun = PInf\<rparr>)), PInf)"
proof -
  have h: "all_minimizations stuck_lib (\<lambda>pp. Inr PInf)
             = Inr (replicate 11 \<lparr>res_x = [Fin 1, Fin 1, Fin 1], res_fun = PInf\<rparr>)"
    by (simp add: all_minimizations_def stuck_lib_def small_lib_def draw_pp0_def eval_nat_numeral)
  have g: "\<forall>r\<in>set (replicate 11 \<lparr>res_x = [Fin 1, Fin 1, Fin 1], res_fun = PInf\<rparr>). res_fun r = PInf"
    by simp
  show ?thesis
    using h optimize_all_infeasible [OF h g] by simp
qed

theorem no_feasible_fit_counterexample:
  "map_sum id bi_pp1 (BayesianInference stuck_lib [0, 1] 1 0 unit_parameters)
     = Inr [Fin 1, Fin 1, Fin 1]"
proof -
  from unit_design obtain ds where ds: "BI_design stuck_lib [0, 1] 1 unit_parameters = Inr ds"
    "wc_N (ds_wc ds) = 2" by blast
  have N: "wc_N (ds_wc ds) \<le> length [0, 1 :: real]" using ds(2) by simp
  have "\<exists>bi. BayesianInference stuck_lib [0, 1] 1 0 unit_parameters = Inr bi
          \<and> bi_pp1 bi = [Fin 1, Fin 1, Fin 1]"
    by (rule BayesianInference_returns [OF ds(1) N stuck_lib_lstsq stuck_lib_optimize]) simp_all
  then show ?thesis by auto
qed

section \<open>Properties of \<open>process_pixel\<close>\<close>

lemma module_globals_undefined:
  "module_globals ''Rforce'' = None" "module_globals ''S'' = None"
  by (simp_all add: module_globals_def)

lemma processResults_no_summary:
  assumes "builtins ''S'' = None"
  shows "processResults lib builtins p R_H wd Rforce M Sig B m_phi y CC False verbose \<noteq> Inr res"
proof
  assume "processResults lib builtins p R_H wd Rforce M Sig B m_phi y CC False verbose = Inr res"
  then obtain S where "load_global builtins ''S'' = Inr S"
    unfolding processResults_def Let_def if_False by (elim bindE_InrE) blast
  then show False
    using assms module_globals_undefined(2) by (simp add: load_global_def)
qed

text \<open>
  C1. \<open>process_pixel\<close> returns no result on any input: where \<open>BayesianInference\<close> raises,
  so does \<open>process_pixel\<close>, and where it returns, loading the name \<open>Rforce\<close> raises
  NameError. \<open>processResults\<close> called without \<open>graph\<close> returns no result either: its
  last line loads the name \<open>S\<close>.
\<close>

theorem process_pixel_never_returns:
  assumes "builtins ''Rforce'' = None" "builtins ''S'' = None"
  shows "process_pixel lib builtins R_H wd n0 p graph verbose \<noteq> Inr res
       \<and> (BayesianInference lib R_H wd n0 p = Inr bi \<longrightarrow>
            process_pixel lib builtins R_H wd n0 p graph verbose = Inl (NameError ''Rforce''))
       \<and> (BayesianInference lib R_H wd n0 p = Inl e \<longrightarrow>
            process_pixel lib builtins R_H wd n0 p graph verbose = Inl e)
       \<and> processResults lib builtins p R_H wd Rforce M Sig B m_phi y CC False verbose \<noteq> Inr res'"
proof -
  have name: "load_global builtins ''Rforce'' = Inl (NameError ''Rforce'')"
    using assms(1) module_globals_undefined(1) by (simp add: load_global_def)
  have fn: "load_global builtins ''processResults'' = Inr Function"
    by (simp add: load_global_def module_globals_def)
  have 1: "process_pixel lib builtins R_H wd n0 p graph verbose = Inl (NameError ''Rforce'')"
    if "BayesianInference lib R_H wd n0 p = Inr bi" for bi
    by (simp add: process_pixel_def that name fn)
  have 2: "process_pixel lib builtins R_H wd n0 p graph verbose = Inl e"
    if "BayesianInference lib R_H wd n0 p = Inl e" for e
    by (simp add: process_pixel_def that)
  have 3: "process_pixel lib builtins R_H wd n0 p graph verbose \<noteq> Inr res"
    using 1 2 by (cases "BayesianInference lib R_H wd n0 p") simp_all
  show ?thesis
    using 1 2 3 processResults_no_summary [of builtins, OF assms(2)] by blast
qed

lemma stuck_inference:
  "\<exists>bi. BayesianInference stuck_lib [0, 1] 1 0 unit_parameters = Inr bi"
proof -
  from unit_design obtain ds where ds: "BI_design stuck_lib [0, 1] 1 unit_parameters = Inr ds"
    "wc_N (ds_wc ds) = 2" by blast
  have N: "wc_N (ds_wc ds) \<le> length [0, 1 :: real]" using ds(2) by simp
  have "\<exists>bi. BayesianInference stuck_lib [0, 1] 1 0 unit_parameters = Inr bi
          \<and> bi_pp1 bi = [Fin 1, Fin 1, Fin 1]"
    by (rule BayesianInference_returns [OF ds(1) N stuck_lib_lstsq stuck_lib_optimize]) simp_all
  then show ?thesis by blast
qed

theorem process_pixel_never_returns_witness:
  "some_builtins ''Rforce'' = None \<and> some_builtins ''S'' = None
   \<and> (\<exists>bi. BayesianInference stuck_lib [0, 1] 1 0 unit_parameters = Inr bi)
   \<and> process_pixel stuck_lib some_builtins [0, 1] 1 0 unit_parameters False False
       = Inl (NameError ''Rforce'')"
proof -
  have b: "some_builtins ''Rforce'' = None" "some_builtins ''S'' = None"
    by (simp_all add: some_builtins_def)
  from stuck_inference obtain bi
    where bi: "BayesianInference stuck_lib [0, 1] 1 0 unit_parameters = Inr bi" by blast
  show ?thesis
    using b bi
      process_pixel_never_returns [where builtins = some_builtins and lib = stuck_lib
        and R_H = "[0, 1]" and wd = 1 and ?n0.0 = 0 and p = unit_parameters and graph = False
        and verbose = False and bi = bi, OF b]
    by blast
qed

theorem process_pixel_counterexample:
  "process_pixel small_lib some_builtins [] 0 0 Map.empty False False = Inl (KeyError ''Bayes.fac'')"
  by (simp add: process_pixel_def BayesianInference_def BI_design_def BI_window_def getitem_def)

section \<open>Properties of the objective\<close>

lemma matmul_mm: "ncols A = nrows B \<Longrightarrow> matmul A B = Inr (mm A B)"
  by (simp add: matmul_def mm_def)

lemma mm_shape [simp]: "nrows (mm A B) = nrows A" "ncols (mm A B) = ncols B"
  by (simp_all add: mm_def)

lemma log_sum_positive:
  "\<forall>x\<in>set xs. 0 < x \<Longrightarrow> log_sum xs = Inr (\<Sum>x\<leftarrow>xs. ln x)"
  by (induction xs) (simp_all add: np_log_def)

lemma log_sum_replicate:
  "0 < x \<Longrightarrow> log_sum (replicate N x) = Inr (real N * ln x)"
  by (induction N) (simp_all add: np_log_def algebra_simps)

lemma obs_precision_finite:
  assumes "obs_precision (Fin g) N = Inr G"
  shows "g \<noteq> 0"
  using assms by (auto simp add: obs_precision_def split: if_splits)

lemma unit_rebuild:
  assumes ds: "BI_design small_lib [0, 1] 1 unit_parameters = Inr ds" and "s \<noteq> 0" "g \<noteq> 0"
  shows "\<exists>rb. mmlenn_rebuild small_lib [Fin s, Fin g, Fin ph] (wc_w (ds_wc ds)) (wc_tt (ds_wc ds))
            (wc_AA (ds_wc ds)) (wc_a1 (ds_wc ds)) (wc_a2 (ds_wc ds)) (wc_y (ds_wc ds)) (ds_n ds)
            (ds_M ds) (wc_h (ds_wc ds)) (ds_m0 ds) 3 (ds_aa ds) = Inr rb"
proof -
  note D = BI_design_D [OF ds] and S = BI_design_shapes [OF ds]
  note I = initial_m0_shape [OF D(5)] and W = BI_window_shapes [OF D(1)]
  from D(6) obtain d where d: "prior_diag 3 (Fin 1) (ds_n ds) (ds_aa ds) = Inr d" "0 \<notin> set d"
    by blast
  have M: "ds_M ds = 2 + nat (ds_n ds + 1)" using D(4) S(6) by simp
  from unit_design [of small_lib] ds have "wc_N (ds_wc ds) = 2" by auto
  then have N: "wc_N (ds_wc ds) \<le> length [0, 1 :: real]" by simp
  show ?thesis
    by (rule mmlenn_rebuild_returns [OF D(1) d S(6) M _ _ N refl assms(2,3)])
       (use I M small_lib_lstsq in simp_all)
qed

lemma unit_design_M:
  assumes ds: "BI_design lib [0, 1] 1 unit_parameters = Inr ds"
  shows "ds_M ds = 5" "ncols (wc_y (ds_wc ds)) = 1"
proof -
  note D = BI_design_D [OF ds]
  from D(8) have "ds_n ds = 2" by (simp add: unit_parameters_items)
  then show "ds_M ds = 5" using D(4) by simp
  show "ncols (wc_y (ds_wc ds)) = 1" by (rule BI_window_shapes(10) [OF D(1)])
qed

lemma small_lib_Sig:
  assumes "posterior small_lib P0 GAI CC y m0 M rcond = Inr (Sig, m_phi)"
  shows "eig small_lib Sig = replicate (nrows Sig) 1"
proof -
  from assms obtain A where "lstsq_call small_lib A (eye M) rcond = Inr Sig"
    unfolding posterior_def by (elim bindE_InrE) auto
  then have "entry Sig = entry (eye M)"
    by (auto simp add: lstsq_call_def small_lib_def split: if_splits)
  then have "map (\<lambda>i. entry Sig i i) [0..<k] = replicate k 1" for k
    by (induction k) (simp_all add: eye_def replicate_append_same)
  then show ?thesis by (simp add: small_lib_def)
qed

text \<open>
  C5. Where the rebuilding of the posterior that precedes the test of the phase returns,
  \<open>_mmlenn\<close> returns \<open>+inf\<close> for every phase above 0 or below \<open>-pi\<close>, and takes the
  branch of the feasible phases at \<open>-pi\<close> and at 0.
\<close>

theorem mmlenn_infeasible:
  assumes "mmlenn_rebuild lib pp w tt AA a1 a2 y n M h m0 sigi aa = Inr rb"
  shows "(less64 (Fin 0) (pp ! 2) \<or> less64 (pp ! 2) (Fin (- pi)) \<longrightarrow>
            mmlenn lib pp w tt AA a1 a2 y n M h m0 sigi aa = Inr PInf)
       \<and> (pp ! 2 = Fin 0 \<or> pp ! 2 = Fin (- pi) \<longrightarrow>
            mmlenn lib pp w tt AA a1 a2 y n M h m0 sigi aa = mmlenn_value lib y rb)"
proof -
  have phi: "rb_phi rb = pp ! 2"
    by (rule mmlenn_rebuild_D(2) [OF assms])
  have m: "mmlenn lib pp w tt AA a1 a2 y n M h m0 sigi aa =
             (case pp ! 2 of
                Fin ph \<Rightarrow> if - pi \<le> ph \<and> ph \<le> 0 then mmlenn_value lib y rb else Inr PInf
              | _ \<Rightarrow> Inr PInf)"
    by (simp add: mmlenn_def assms phi)
  show ?thesis
    unfolding m by (cases "pp ! 2") auto
qed

theorem mmlenn_infeasible_witness:
  "\<exists>ds rb rb0. BI_design small_lib [0, 1] 1 unit_parameters = Inr ds
      \<and> mmlenn_rebuild small_lib [Fin 1, Fin 1, Fin 1] (wc_w (ds_wc ds)) (wc_tt (ds_wc ds))
            (wc_AA (ds_wc ds)) (wc_a1 (ds_wc ds)) (wc_a2 (ds_wc ds)) (wc_y (ds_wc ds)) (ds_n ds)
            (ds_M ds) (wc_h (ds_wc ds)) (ds_m0 ds) 3 (ds_aa ds) = Inr rb
      \<and> less64 (Fin 0) ([Fin 1, Fin 1, Fin 1] ! 2)
      \<and> mmlenn small_lib [Fin 1, Fin 1, Fin 1] (wc_w (ds_wc ds)) (wc_tt (ds_wc ds))
            (wc_AA (ds_wc ds)) (wc_a1 (ds_wc ds)) (wc_a2 (ds_wc ds)) (wc_y (ds_wc ds)) (ds_n ds)
            (ds_M ds) (wc_h (ds_wc ds)) (ds_m0 ds) 3 (ds_aa ds) = Inr PInf
      \<and> mmlenn_rebuild small_lib [Fin 1, Fin 1, Fin 0] (wc_w (ds_wc ds)) (wc_tt (ds_wc ds))
            (wc_AA (ds_wc ds)) (wc_a1 (ds_wc ds)) (wc_a2 (ds_wc ds)) (wc_y (ds_wc ds)) (ds_n ds)
            (ds_M ds) (wc_h (ds_wc ds)) (ds_m0 ds) 3 (ds_aa ds) = Inr rb0
      \<and> mmlenn small_lib [Fin 1, Fin 1, Fin 0] (wc_w (ds_wc ds)) (wc_tt (ds_wc ds))
            (wc_AA (ds_wc ds)) (wc_a1 (ds_wc ds)) (wc_a2 (ds_wc ds)) (wc_y (ds_wc ds)) (ds_n ds)
            (ds_M ds) (wc_h (ds_wc ds)) (ds_m0 ds) 3 (ds_aa ds)
          = mmlenn_value small_lib (wc_y (ds_wc ds)) rb0"
proof -
  from unit_design obtain ds where ds: "BI_design small_lib [0, 1] 1 unit_parameters = Inr ds"
    by blast
  from unit_rebuild [OF ds, of 1 1 1] obtain rb
    where rb: "mmlenn_rebuild small_lib [Fin 1, Fin 1, Fin 1] (wc_w (ds_wc ds)) (wc_tt (ds_wc ds))
            (wc_AA (ds_wc ds)) (wc_a1 (ds_wc ds)) (wc_a2 (ds_wc ds)) (wc_y (ds_wc ds)) (ds_n ds)
            (ds_M ds) (wc_h (ds_wc ds)) (ds_m0 ds) 3 (ds_aa ds) = Inr rb" by auto
  from unit_rebuild [OF ds, of 1 1 0] obtain rb0
    where rb0: "mmlenn_rebuild small_lib [Fin 1, Fin 1, Fin 0] (wc_w (ds_wc ds)) (wc_tt (ds_wc ds))
            (wc_AA (ds_wc ds)) (wc_a1 (ds_wc ds)) (wc_a2 (ds_wc ds)) (wc_y (ds_wc ds)) (ds_n ds)
            (ds_M ds) (wc_h (ds_wc ds)) (ds_m0 ds) 3 (ds_aa ds) = Inr rb0" by auto
  have f: "less64 (Fin 0) ([Fin 1, Fin 1, Fin 1] ! 2)" by simp
  have b: "[Fin 1, Fin 1, Fin 0] ! 2 = Fin 0" by simp
  show ?thesis
    using ds rb rb0 f b mmlenn_infeasible [OF rb] mmlenn_infeasible [OF rb0] by blast
qed

theorem mmlenn_infeasible_counterexample:
  "mmlenn small_lib [PInf, Fin 1, Fin 1] 1 [0] (zeros 2 2) (zeros 2 1) (zeros 2 1) (column [1])
     2 5 1 (column [0, 0, 0, 0, 0]) 3 (PyInt 2) = Inl LinAlgError"
  by (simp add: mmlenn_def mmlenn_rebuild_def getidx_def prior_diag_def py_div_def arange_pow_def
        linalg_inv_diag_def upto.simps)

section \<open>Properties of the fit statistics\<close>

lemma var_nonneg: "0 \<le> var v"
proof -
  have "0 \<le> (\<Sum>x\<leftarrow>v. (x - mean v) ^ 2)"
    by (rule sum_list_nonneg) auto
  then show ?thesis
    unfolding var_def mean_def [of "map (\<lambda>x. (x - mean v) ^ 2) v"] by simp
qed

lemma rsq_of_cases:
  assumes "0 \<le> s" "0 \<le> t"
  shows "rsq_of s (Fin t) = (if t = 0 then (if s = 0 then NaN else NInf) else Fin (1 - s / t))"
  using assms by (simp add: rsq_of_def)

lemma rsq_of_le_one:
  assumes "0 \<le> s" "0 \<le> t"
  shows "rsq_of s (Fin t) = NaN \<or> le64 (rsq_of s (Fin t)) (Fin 1)"
proof (cases "t = 0")
  case True
  with assms show ?thesis by (simp add: rsq_of_def le64_def)
next
  case False
  with assms(2) have "0 < t" by simp
  with assms(1) have "0 \<le> s / t" by simp
  with False show ?thesis by (auto simp add: rsq_of_def le64_def less_le)
qed

lemma polyfit_call_D:
  assumes "polyfit_call lib x y deg = Inr p"
  shows "x \<noteq> [] \<and> length x = nrows y \<and> nrows p = deg + 1 \<and> ncols p = ncols y"
  using assms by (auto simp add: polyfit_call_def split: if_splits elim!: bindE_InrE)

lemma fit_statistics_D:
  assumes "fit_statistics lib Vac w_ang tt1 phi B m_phi M y CC = Inr st"
  obtains y1 :: ndarray and p1 :: ndarray and yresid :: ndarray
  where "matmul (rows_step2 B 1) (rows_range m_phi 2 (M + 1)) = Inr y1"
    and "polyfit_call lib (map (\<lambda>t. Vac * sin (w_ang * t + phi)) tt1) y1 2 = Inr p1"
    and "broadcast (-) y1 (polyval3 p1 (map (\<lambda>t. Vac * sin (w_ang * t + phi)) tt1)) = Inr yresid"
    and "st_y1 st = y1" and "st_p1 st = p1" and "st_yresid st = yresid"
    and "st_x1 st = map (\<lambda>t. Vac * sin (w_ang * t + phi)) tt1"
    and "st_yfit st = polyval3 p1 (map (\<lambda>t. Vac * sin (w_ang * t + phi)) tt1)"
    and "st_SSresid st = map (\<lambda>j. \<Sum>i<nrows yresid. entry yresid i j ^ 2) [0..<ncols yresid]"
    and "st_SStotal st = (if array_size y1 = 0 then NaN
                       else Fin ((real (array_size y1) - 1) * var (entries y1)))"
    and "st_rsq st = map (\<lambda>s. rsq_of s (st_SStotal st)) (st_SSresid st)"
  using assms unfolding fit_statistics_def Let_def
  by (elim bindE_InrE) (rule that; (assumption | force))


text \<open>
  C9. Whenever the fit statistics of \<open>processResults\<close> are computed, with \<open>y1\<close> the
  recovered force, \<open>p1\<close> the coefficients of the degree-2 fit and \<open>yresid\<close> the residuals
  \<open>y1 - polyval(p1, x1)\<close>, there is one \<open>rsq\<close> for each column of \<open>y1\<close>: with
  \<open>SSresid\<close> the sum of the squared residuals of that column and
  \<open>SStotal = (y1.size - 1)*var(y1)\<close>, it is \<open>1 - SSresid/SStotal\<close> where \<open>SStotal\<close> is not 0,
  \<open>-inf\<close> where only \<open>SStotal\<close> is 0, and \<open>nan\<close> where both are 0. So each \<open>rsq\<close> is at
  most 1 or is \<open>nan\<close>.
\<close>

theorem rsq_at_most_one:
  assumes "fit_statistics lib Vac w_ang tt1 phi B m_phi M y CC = Inr st"
  shows "matmul (rows_step2 B 1) (rows_range m_phi 2 (M + 1)) = Inr (st_y1 st)
       \<and> st_x1 st = map (\<lambda>t. Vac * sin (w_ang * t + phi)) tt1
       \<and> polyfit_call lib (st_x1 st) (st_y1 st) 2 = Inr (st_p1 st)
       \<and> nrows (st_yresid st) = nrows (st_y1 st) \<and> ncols (st_yresid st) = ncols (st_y1 st)
       \<and> (\<forall>i<nrows (st_y1 st). \<forall>j<ncols (st_y1 st).
             entry (st_yresid st) i j
               = entry (st_y1 st) i j
                 - (entry (st_p1 st) 0 j * (st_x1 st ! i) ^ 2 + entry (st_p1 st) 1 j * (st_x1 st ! i)
                    + entry (st_p1 st) 2 j))
       \<and> length (st_rsq st) = ncols (st_y1 st)
       \<and> (\<forall>j<ncols (st_y1 st).
             st_rsq st ! j
               = (let SSresid = (\<Sum>i<nrows (st_yresid st). entry (st_yresid st) i j ^ 2);
                      SStotal = (real (array_size (st_y1 st)) - 1) * var (entries (st_y1 st))
                  in if SStotal = 0 then (if SSresid = 0 then NaN else NInf)
                     else Fin (1 - SSresid / SStotal))
           \<and> (st_rsq st ! j = NaN \<or> le64 (st_rsq st ! j) (Fin 1)))"
proof -
  let ?x1 = "map (\<lambda>t. Vac * sin (w_ang * t + phi)) tt1"
  from assms obtain y1 :: ndarray and p1 :: ndarray and yresid :: ndarray
    where y1: "matmul (rows_step2 B 1) (rows_range m_phi 2 (M + 1)) = Inr y1"
      and p1: "polyfit_call lib ?x1 y1 2 = Inr p1"
      and yr: "broadcast (-) y1 (polyval3 p1 ?x1) = Inr yresid"
      and sy: "st_y1 st = y1" and sp: "st_p1 st = p1" and sr: "st_yresid st = yresid"
      and sx: "st_x1 st = ?x1"
      and ss: "st_SSresid st = map (\<lambda>j. \<Sum>i<nrows yresid. entry yresid i j ^ 2) [0..<ncols yresid]"
      and stt: "st_SStotal st = (if array_size y1 = 0 then NaN
                       else Fin ((real (array_size y1) - 1) * var (entries y1)))"
      and sq: "st_rsq st = map (\<lambda>s. rsq_of s (st_SStotal st)) (st_SSresid st)"
    by (rule fit_statistics_D)
  from polyfit_call_D [OF p1]
  have x: "?x1 \<noteq> []" and len: "length ?x1 = nrows y1" and pc: "ncols p1 = ncols y1"
    by simp_all
  have fitshape: "nrows (polyval3 p1 ?x1) = nrows y1" "ncols (polyval3 p1 ?x1) = ncols y1"
    using len pc by (simp_all add: polyval3_def)
  from yr fitshape have rshape: "nrows yresid = nrows y1" "ncols yresid = ncols y1"
    by (auto simp add: broadcast_def split: if_splits)
  have rentry: "entry yresid i j
      = entry y1 i j - (entry p1 0 j * (?x1 ! i) ^ 2 + entry p1 1 j * (?x1 ! i) + entry p1 2 j)"
    if "i < nrows y1" "j < ncols y1" for i j
  proof -
    from yr fitshape that
    have "entry yresid i j = entry y1 i j - entry (polyval3 p1 ?x1) i j"
      by (auto simp add: broadcast_def split: if_splits)
    then show ?thesis by (simp add: polyval3_def power2_eq_square algebra_simps)
  qed
  have lenq: "length (st_rsq st) = ncols y1"
    by (simp add: sq ss rshape)
  have val: "st_rsq st ! j
               = (let SSresid = (\<Sum>i<nrows yresid. entry yresid i j ^ 2);
                      SStotal = (real (array_size y1) - 1) * var (entries y1)
                  in if SStotal = 0 then (if SSresid = 0 then NaN else NInf)
                     else Fin (1 - SSresid / SStotal))
           \<and> (st_rsq st ! j = NaN \<or> le64 (st_rsq st ! j) (Fin 1))"
    if j: "j < ncols y1" for j
  proof -
    from x len have "0 < nrows y1" by (cases tt1) auto
    with j have size: "array_size y1 \<noteq> 0" by (simp add: array_size_def)
    let ?s = "\<Sum>i<nrows yresid. entry yresid i j ^ 2"
    let ?t = "(real (array_size y1) - 1) * var (entries y1)"
    have s0: "0 \<le> ?s" by (rule sum_nonneg) simp
    have t0: "0 \<le> ?t"
      using size var_nonneg [of "entries y1"] by (cases "array_size y1") simp_all
    have q: "st_rsq st ! j = rsq_of ?s (Fin ?t)"
      using j size by (simp add: sq ss stt rshape)
    show ?thesis
      unfolding q Let_def using rsq_of_cases [OF s0 t0] rsq_of_le_one [OF s0 t0] by simp
  qed
  show ?thesis
    unfolding sy sp sr
    using y1 sx p1 rshape rentry lenq val unfolding sx [symmetric] by blast
qed


lemma sum_lessThan_4: "(\<Sum>i<(4::nat). f i) = f 0 + f 1 + f 2 + (f 3 :: real)"
  by (simp add: eval_nat_numeral)

lemma upt_4: "[0..<4] = [0, 1, 2, 3]"
  by (simp add: upt_rec)

lemma poor_fit_statistics:
  "map_sum id st_rsq (fit_statistics small_lib 3 (pi / 2) [0, 1, 2, 3] 0
       (column [0, 1, 0, 0, 0, - 1, 0, 0]) (column [0, 0, 1]) 3 (column [0, 0, 0, 0]) (zeros 4 3))
     = Inr [Fin (- (1 / 3))]"
  by (simp add: fit_statistics_def Let_def matmul_def broadcast_def rows_step2_def rows_range_def
        column_def zeros_def small_lib_def polyfit_call_def polyval3_def array_size_def
        entries_def var_def mean_def rsq_of_def sum_lessThan_4 upt_4)

lemma zero_force_statistics:
  "map_sum id st_rsq (fit_statistics small_lib 3 (pi / 2) [0, 1, 2, 3] 0
       (column [0, 1, 0, 1, 0, 1, 0, 1]) (column [0, 0, 0]) 3 (column [0, 0, 0, 0]) (zeros 4 3))
     = Inr [NaN]"
  by (simp add: fit_statistics_def Let_def matmul_def broadcast_def rows_step2_def rows_range_def
        column_def zeros_def small_lib_def polyfit_call_def polyval3_def array_size_def
        entries_def var_def mean_def rsq_of_def sum_lessThan_4 upt_4)

text \<open>
  For the force \<open>(1, 0, -1, 0)\<close> over \<open>x1 = (0, 3, 0, -3)\<close> the least-squares polynomial is
  0, which is what the polynomial fit of the small library returns: \<open>SSresid = 2\<close>,
  \<open>SStotal = 3/2\<close> and \<open>rsq = -1/3\<close>.
\<close>

theorem rsq_at_most_one_witness:
  "\<exists>st. fit_statistics small_lib 3 (pi / 2) [0, 1, 2, 3] 0
          (column [0, 1, 0, 0, 0, - 1, 0, 0]) (column [0, 0, 1]) 3 (column [0, 0, 0, 0]) (zeros 4 3)
        = Inr st
      \<and> st_rsq st = [Fin (- (1 / 3))]
      \<and> ncols (st_y1 st) = 1
      \<and> le64 (st_rsq st ! 0) (Fin 1)"
proof -
  from poor_fit_statistics obtain st
    where st: "fit_statistics small_lib 3 (pi / 2) [0, 1, 2, 3] 0
          (column [0, 1, 0, 0, 0, - 1, 0, 0]) (column [0, 0, 1]) 3 (column [0, 0, 0, 0]) (zeros 4 3)
        = Inr st"
      and q: "st_rsq st = [Fin (- (1 / 3))]"
    by (cases "fit_statistics small_lib 3 (pi / 2) [0, 1, 2, 3] 0
          (column [0, 1, 0, 0, 0, - 1, 0, 0]) (column [0, 0, 1]) 3 (column [0, 0, 0, 0]) (zeros 4 3)")
       simp_all
  from rsq_at_most_one [OF st]
  have len: "length (st_rsq st) = ncols (st_y1 st)"
    and bound: "\<forall>j<ncols (st_y1 st). st_rsq st ! j = NaN \<or> le64 (st_rsq st ! j) (Fin 1)"
    by blast+
  from len q have c: "ncols (st_y1 st) = 1" by simp
  with bound have "st_rsq st ! 0 = NaN \<or> le64 (st_rsq st ! 0) (Fin 1)" by simp
  with q have "le64 (st_rsq st ! 0) (Fin 1)" by simp
  with st q c show ?thesis by blast
qed

text \<open>
  With the basis of order 0 and a posterior mean that is 0, the recovered force is 0, the
  fit is exact, \<open>SSresid\<close> and \<open>SStotal\<close> are both 0 and \<open>rsq\<close> is \<open>nan\<close>, for which
  \<open>rsq <= 1\<close> is False.
\<close>

theorem rsq_nan_counterexample:
  "map_sum id st_rsq (fit_statistics small_lib 3 (pi / 2) [0, 1, 2, 3] 0
       (column [0, 1, 0, 1, 0, 1, 0, 1]) (column [0, 0, 0]) 3 (column [0, 0, 0, 0]) (zeros 4 3))
     = Inr [NaN]
   \<and> le64 NaN (Fin 1) = False"
  by (simp add: zero_force_statistics le64_def)

end
